theory Spec2Isabelle
  imports Complex_Main
begin

section \<open>JavaScript values\<close>

text \<open>
  The codec works on plain JavaScript objects as they come out of \<^verbatim>\<open>JSON.parse\<close>
  or out of an object literal of data properties. A number is an IEEE double: here a
  rational, or one of the three special values. An object is the list of its own
  enumerable properties in the order \<^verbatim>\<open>Object.entries\<close> lists them; a property
  written twice keeps its place and takes the new value. A string is a list of characters
  (one \<open>char\<close> per code unit; the fields the codec cuts are ASCII). Besides the values
  of JSON there are the two other primitive kinds a caller can put into a payload, a
  BigInt and a Symbol (\<open>JSymbol d\<close> is a symbol with description \<open>d\<close>; the code never
  compares two symbols).
  \<open>JNative k\<close> is the member \<open>k\<close> every object inherits from
  \<^verbatim>\<open>Object.prototype\<close> (a function, or the prototype itself for
  \<^verbatim>\<open>__proto__\<close>): a table lookup such as \<^verbatim>\<open>EVENT_TYPES[x]\<close> returns it
  when \<open>x\<close> is one of those names.
\<close>

datatype jsnum = NaN | Num rat | PosInf | NegInf

datatype jsval =
    JUndefined
  | JNull
  | JBool bool
  | JNum jsnum
  | JStr string
  | JArr "jsval list"
  | JObj "(string \<times> jsval) list"
  | JNative string
  | JBigInt int
  | JSymbol string

type_synonym jsobj = "(string \<times> jsval) list"

datatype js_error = TypeError | RangeError

text \<open>Truthiness, as \<^verbatim>\<open>if (v)\<close>, \<^verbatim>\<open>!v\<close>, \<^verbatim>\<open>a || b\<close> and \<^verbatim>\<open>a && b\<close> read it.\<close>

fun truthy :: "jsval \<Rightarrow> bool" where
  "truthy JUndefined = False"
| "truthy JNull = False"
| "truthy (JBool b) = b"
| "truthy (JNum NaN) = False"
| "truthy (JNum (Num q)) = (q \<noteq> 0)"
| "truthy (JNum PosInf) = True"
| "truthy (JNum NegInf) = True"
| "truthy (JStr s) = (s \<noteq> [])"
| "truthy (JArr xs) = True"
| "truthy (JObj ps) = True"
| "truthy (JNative k) = True"
| "truthy (JBigInt n) = (n \<noteq> 0)"
| "truthy (JSymbol d) = True"

definition falsy :: "jsval \<Rightarrow> bool" where
  "falsy v = (\<not> truthy v)"

definition js_or :: "jsval \<Rightarrow> jsval \<Rightarrow> jsval" where
  "js_or a b = (if truthy a then a else b)"

text \<open>
  Conversions. The conversion of an object to a primitive throws TypeError when no method
  yields one. A plain object is converted by the \<^verbatim>\<open>toString\<close> it inherits, since the
  inherited \<^verbatim>\<open>valueOf\<close> returns the object itself; an own property
  \<^verbatim>\<open>toString\<close> hides the inherited one and, being data, cannot be called, so
  the conversion fails. An array is joined, which converts each element other than
  \<^verbatim>\<open>null\<close> and \<^verbatim>\<open>undefined\<close> to a string. A Symbol cannot be converted to a
  string or to a number, and a BigInt cannot be converted to a number nor mixed with a
  number in arithmetic.

  \<open>to_string_throws\<close> is ToString (a template string, the elements of a joined array),
  \<open>to_number_throws\<close> is ToNumber and the arithmetic operators with a number on the
  other side (\<^verbatim>\<open>a - v\<close>, \<^verbatim>\<open>v * 1000\<close>, \<^verbatim>\<open>Math.round(v)\<close>,
  \<^verbatim>\<open>new Date(v)\<close>), and \<open>to_key_throws\<close> is the conversion to a property key
  (\<^verbatim>\<open>T[v]\<close>), which leaves a Symbol as it is.
\<close>

fun to_string_throws :: "jsval \<Rightarrow> bool" where
  "to_string_throws (JSymbol d) = True"
| "to_string_throws (JObj ps) = (map_of ps ''toString'' \<noteq> None)"
| "to_string_throws (JArr xs) = list_ex to_string_throws xs"
| "to_string_throws v = False"

definition to_number_throws :: "jsval \<Rightarrow> bool" where
  "to_number_throws v = (case v of JBigInt n \<Rightarrow> True | _ \<Rightarrow> to_string_throws v)"

definition to_key_throws :: "jsval \<Rightarrow> bool" where
  "to_key_throws v = (case v of JSymbol d \<Rightarrow> False | _ \<Rightarrow> to_string_throws v)"

text \<open>Reading and writing an own property. A missing property reads as \<^verbatim>\<open>undefined\<close>.\<close>

definition obj_get :: "jsobj \<Rightarrow> string \<Rightarrow> jsval" where
  "obj_get ob k = (case map_of ob k of None \<Rightarrow> JUndefined | Some v \<Rightarrow> v)"

fun obj_set :: "jsobj \<Rightarrow> string \<Rightarrow> jsval \<Rightarrow> jsobj" where
  "obj_set [] k v = [(k, v)]"
| "obj_set ((k', v') # ps) k v = (if k' = k then (k, v) # ps else (k', v') # obj_set ps k v)"

text \<open>
  The names every plain object inherits from \<^verbatim>\<open>Object.prototype\<close> (Node.js), and
  what such a member turns into when it is used as a property key or in a template
  string.
\<close>

definition object_prototype_members :: "string list" where
  "object_prototype_members =
     [''constructor'', ''__defineGetter__'', ''__defineSetter__'', ''hasOwnProperty'',
      ''__lookupGetter__'', ''__lookupSetter__'', ''isPrototypeOf'', ''propertyIsEnumerable'',
      ''toString'', ''valueOf'', ''__proto__'', ''toLocaleString'']"

definition native_to_string :: "string \<Rightarrow> string" where
  "native_to_string k =
     (if k = ''__proto__'' then ''[object Object]''
      else ''function '' @ (if k = ''constructor'' then ''Object'' else k) @ ''() { [native code] }'')"

text \<open>\<^verbatim>\<open>T[k]\<close> for a table \<open>T\<close> written as an object literal and a string key \<open>k\<close>.\<close>

definition table_get :: "(string \<times> jsval) list \<Rightarrow> string \<Rightarrow> jsval" where
  "table_get T k =
     (case map_of T k of
        Some v \<Rightarrow> v
      | None \<Rightarrow> if List.member object_prototype_members k then JNative k else JUndefined)"

section \<open>Built-ins of the JavaScript runtime\<close>

text \<open>
  What the code calls in the runtime and its standard library, taken as parameters:
  the clock, \<^verbatim>\<open>Date\<close> parsing and printing, \<^verbatim>\<open>Math.round\<close>,
  \<^verbatim>\<open>parseFloat\<close>, the conversion of a value that is not a string to a string,
  the SHA-256 digest of \<^verbatim>\<open>crypto\<close>, and the floating-point evaluation of the
  haversine formula (\<^verbatim>\<open>haversineDistance\<close>, which is \<^verbatim>\<open>Math.sin\<close>,
  \<^verbatim>\<open>Math.cos\<close>, \<^verbatim>\<open>Math.atan2\<close> and \<^verbatim>\<open>Math.sqrt\<close> on doubles: its
  result is a finite number or NaN).
\<close>

datatype dist = DNaN | DNum rat

record builtins =
  date_now :: int  \<comment> \<open>\<^verbatim>\<open>Date.now()\<close>, milliseconds\<close>
  date_now_iso :: string  \<comment> \<open>\<^verbatim>\<open>new Date().toISOString()\<close>\<close>
  date_get_time :: "jsval \<Rightarrow> int option"
    \<comment> \<open>\<^verbatim>\<open>new Date(v).getTime()\<close>; \<open>None\<close> is NaN (an invalid date)\<close>
  date_iso_of_seconds :: "jsval \<Rightarrow> string option"
    \<comment> \<open>\<^verbatim>\<open>new Date(v * 1000).toISOString()\<close>; \<open>None\<close> when it throws RangeError\<close>
  math_round :: "jsval \<Rightarrow> jsnum"  \<comment> \<open>\<^verbatim>\<open>Math.round(v)\<close>\<close>
  parseFloat :: "string \<Rightarrow> jsnum"
  to_string_other :: "jsval \<Rightarrow> string"
    \<comment> \<open>ToString of a number, boolean, null, undefined, BigInt, array or object\<close>
  sha256_hex :: "string \<Rightarrow> string"
    \<comment> \<open>\<^verbatim>\<open>crypto.createHash('sha256').update(data).digest('hex')\<close>\<close>
  haversineDistance :: "jsval \<Rightarrow> jsval \<Rightarrow> rat \<Rightarrow> rat \<Rightarrow> dist"
    \<comment> \<open>\<^verbatim>\<open>haversineDistance(lat1, lng1, lat2, lng2)\<close>\<close>

text \<open>
  The built-ins that convert their argument (\<open>date_get_time\<close>, \<open>date_iso_of_seconds\<close>,
  \<open>math_round\<close>, \<open>to_string_other\<close>, \<open>haversineDistance\<close>) give the result of the call
  where the conversion returns. Where it throws (\<open>to_number_throws\<close>,
  \<open>to_key_throws\<close>) the definitions below return the error and do not consult them.
\<close>

text \<open>
  ToString, as a property key and a template string apply it, of a value whose
  conversion returns.
\<close>

definition to_key :: "builtins \<Rightarrow> jsval \<Rightarrow> string" where
  "to_key B v =
     (case v of JStr s \<Rightarrow> s | JNative k \<Rightarrow> native_to_string k | _ \<Rightarrow> to_string_other B v)"

text \<open>
  \<^verbatim>\<open>T[v]\<close> for a table \<open>T\<close> and any value \<open>v\<close>. Neither a table nor
  \<^verbatim>\<open>Object.prototype\<close> has a property whose key is a Symbol.
\<close>

definition index_table ::
  "builtins \<Rightarrow> (string \<times> jsval) list \<Rightarrow> jsval \<Rightarrow> js_error + jsval" where
  "index_table B T v =
     (if to_key_throws v then Inl TypeError
      else case v of
        JSymbol d \<Rightarrow> Inr JUndefined
      | _ \<Rightarrow> Inr (table_get T (to_key B v)))"

section \<open>Hash utilities\<close>

definition startsWith :: "string \<Rightarrow> string \<Rightarrow> bool" where
  "startsWith s p = (take (length p) s = p)"

text \<open>\<^verbatim>\<open>s.replace(/^(sha256:|hex:)/, '')\<close>\<close>

definition strip_hash_prefix :: "string \<Rightarrow> string" where
  "strip_hash_prefix s =
     (if startsWith s ''sha256:'' then drop 7 s
      else if startsWith s ''hex:'' then drop 4 s
      else s)"

definition is_hex_char :: "char \<Rightarrow> bool" where
  "is_hex_char c = List.member ''0123456789abcdefABCDEF'' c"

text \<open>\<^verbatim>\<open>/^[0-9a-fA-F]+$/.test(s)\<close>\<close>

definition is_hex_string :: "string \<Rightarrow> bool" where
  "is_hex_string s = (s \<noteq> [] \<and> list_all is_hex_char s)"

definition toLowerCase_char :: "char \<Rightarrow> char" where
  "toLowerCase_char c =
     (case map_of (zip ''ABCDEFGHIJKLMNOPQRSTUVWXYZ'' ''abcdefghijklmnopqrstuvwxyz'') c of
        Some l \<Rightarrow> l
      | None \<Rightarrow> c)"

definition toLowerCase :: "string \<Rightarrow> string" where
  "toLowerCase s = map toLowerCase_char s"

text \<open>\<^verbatim>\<open>truncateHash\<close> on a string that is not empty.\<close>

definition truncate_string :: "string \<Rightarrow> nat \<Rightarrow> string" where
  "truncate_string fullHash len =
     (let cleaned = strip_hash_prefix fullHash in
      if \<not> is_hex_string cleaned then take len cleaned
      else toLowerCase (take len cleaned))"

text \<open>
  \<^verbatim>\<open>truncateHash(fullHash, length)\<close>: a falsy argument gives the empty string; a truthy
  value that is not a string has no \<^verbatim>\<open>replace\<close> method, and the call throws.
\<close>

definition truncateHash :: "jsval \<Rightarrow> nat \<Rightarrow> js_error + string" where
  "truncateHash fullHash len =
     (if falsy fullHash then Inr []
      else case fullHash of
        JStr s \<Rightarrow> Inr (truncate_string s len)
      | _ \<Rightarrow> Inl TypeError)"

definition removeHashPrefix :: "jsval \<Rightarrow> js_error + string" where
  "removeHashPrefix hash =
     (if falsy hash then Inr []
      else case hash of
        JStr s \<Rightarrow> Inr (strip_hash_prefix s)
      | _ \<Rightarrow> Inl TypeError)"

text \<open>
  The lookup table is a \<^verbatim>\<open>Map\<close> from truncated hash to full hash, both strings.
  \<^verbatim>\<open>hashAndStore\<close> returns \<^verbatim>\<open>{ full, truncated }\<close> and leaves the table updated;
  \<open>None\<close> is a call without a table.
\<close>

type_synonym lookup = "string \<rightharpoonup> string"



section \<open>Geotag mapper\<close>

record city =
  code :: string
  name :: string
  lat :: rat
  lng :: rat
  radius :: rat

definition MOROCCAN_CITIES :: "city list" where
  "MOROCCAN_CITIES =
     [\<lparr>code = ''MA-CAS'', name = ''Casablanca'', lat = 335731 / 10000, lng = - (75898 / 10000), radius = 30\<rparr>,
      \<lparr>code = ''MA-RAB'', name = ''Rabat'', lat = 340209 / 10000, lng = - (68416 / 10000), radius = 25\<rparr>,
      \<lparr>code = ''MA-FES'', name = ''Fes'', lat = 340181 / 10000, lng = - (50078 / 10000), radius = 20\<rparr>,
      \<lparr>code = ''MA-MAR'', name = ''Marrakech'', lat = 316295 / 10000, lng = - (79811 / 10000), radius = 25\<rparr>,
      \<lparr>code = ''MA-TAN'', name = ''Tangier'', lat = 357595 / 10000, lng = - (58340 / 10000), radius = 20\<rparr>,
      \<lparr>code = ''MA-SAL'', name = ''Sale'', lat = 340531 / 10000, lng = - (67985 / 10000), radius = 15\<rparr>,
      \<lparr>code = ''MA-MKN'', name = ''Meknes'', lat = 338935 / 10000, lng = - (55473 / 10000), radius = 15\<rparr>,
      \<lparr>code = ''MA-OUJ'', name = ''Oujda'', lat = 346867 / 10000, lng = - (19114 / 10000), radius = 15\<rparr>,
      \<lparr>code = ''MA-KEN'', name = ''Kenitra'', lat = 342610 / 10000, lng = - (65802 / 10000), radius = 15\<rparr>,
      \<lparr>code = ''MA-TET'', name = ''Tetouan'', lat = 355889 / 10000, lng = - (53626 / 10000), radius = 15\<rparr>,
      \<lparr>code = ''MA-SAF'', name = ''Safi'', lat = 323008 / 10000, lng = - (92272 / 10000), radius = 15\<rparr>,
      \<lparr>code = ''MA-AGD'', name = ''Agadir'', lat = 304278 / 10000, lng = - (95981 / 10000), radius = 20\<rparr>,
      \<lparr>code = ''MA-BEN'', name = ''Beni Mellal'', lat = 323394 / 10000, lng = - (63498 / 10000), radius = 15\<rparr>,
      \<lparr>code = ''MA-NAD'', name = ''Nador'', lat = 351681 / 10000, lng = - (29333 / 10000), radius = 15\<rparr>,
      \<lparr>code = ''MA-TAZ'', name = ''Taza'', lat = 342133 / 10000, lng = - (40103 / 10000), radius = 15\<rparr>,
      \<lparr>code = ''MA-KHO'', name = ''Khouribga'', lat = 328811 / 10000, lng = - (69063 / 10000), radius = 15\<rparr>,
      \<lparr>code = ''MA-LAA'', name = ''Laayoune'', lat = 271536 / 10000, lng = - (131994 / 10000), radius = 20\<rparr>]"

definition FALLBACK_CODE :: string where
  "FALLBACK_CODE = ''MA-UNK''"

text \<open>
  The call \<^verbatim>\<open>haversineDistance(lat, lng, city.lat, city.lng)\<close>. The function starts
  with \<^verbatim>\<open>lat2 - lat1\<close> and \<^verbatim>\<open>lng2 - lng1\<close>, where \<^verbatim>\<open>lat1\<close> and
  \<^verbatim>\<open>lng1\<close> are the caller's values: the subtraction converts them to numbers, and
  throws where that conversion does. Nothing catches the error on the way out of
  \<^verbatim>\<open>coordsToCity\<close> and \<^verbatim>\<open>compressGeotag\<close>.
\<close>

definition haversine_call ::
  "builtins \<Rightarrow> jsval \<Rightarrow> jsval \<Rightarrow> rat \<Rightarrow> rat \<Rightarrow> js_error + dist" where
  "haversine_call B lat1 lng1 lat2 lng2 =
     (if to_number_throws lat1 \<or> to_number_throws lng1 then Inl TypeError
      else Inr (haversineDistance B lat1 lng1 lat2 lng2))"

text \<open>
  The loop of \<^verbatim>\<open>coordsToCity\<close> over the catalogue. \<open>nearestCity\<close> starts as
  \<^verbatim>\<open>null\<close> (\<open>None\<close>) and \<open>minDistance\<close> as \<^verbatim>\<open>Infinity\<close> (\<open>None\<close>). A
  comparison with NaN is false.
\<close>

definition dist_le :: "dist \<Rightarrow> rat \<Rightarrow> bool" where
  "dist_le d r = (case d of DNaN \<Rightarrow> False | DNum x \<Rightarrow> x \<le> r)"

definition dist_less_min :: "dist \<Rightarrow> rat option \<Rightarrow> bool" where
  "dist_less_min d m =
     (case d of DNaN \<Rightarrow> False | DNum x \<Rightarrow> (case m of None \<Rightarrow> True | Some y \<Rightarrow> x < y))"

fun coordsToCity_loop ::
  "builtins \<Rightarrow> jsval \<Rightarrow> jsval \<Rightarrow> city list \<Rightarrow> city option \<Rightarrow> rat option
     \<Rightarrow> js_error + string" where
  "coordsToCity_loop B la lo [] nearestCity minDistance =
     (case nearestCity of
        None \<Rightarrow> Inr FALLBACK_CODE
      | Some c \<Rightarrow>
          (case minDistance of
             None \<Rightarrow> Inr FALLBACK_CODE
           | Some m \<Rightarrow> if m \<le> 100 then Inr (code c) else Inr FALLBACK_CODE))"
| "coordsToCity_loop B la lo (c # cs) nearestCity minDistance =
     (case haversine_call B la lo (lat c) (lng c) of
        Inl e \<Rightarrow> Inl e
      | Inr distance \<Rightarrow>
          if dist_le distance (radius c) then Inr (code c)
          else if dist_less_min distance minDistance
            then coordsToCity_loop B la lo cs (Some c)
                   (case distance of DNum x \<Rightarrow> Some x | DNaN \<Rightarrow> minDistance)
            else coordsToCity_loop B la lo cs nearestCity minDistance)"

definition coordsToCity :: "builtins \<Rightarrow> jsval \<Rightarrow> jsval \<Rightarrow> js_error + string" where
  "coordsToCity B la lo =
     (if falsy la \<or> falsy lo then Inr FALLBACK_CODE
      else coordsToCity_loop B la lo MOROCCAN_CITIES None None)"

text \<open>\<^verbatim>\<open>s.split(',')\<close>: the pieces between the commas, at least one.\<close>

fun split_comma :: "string \<Rightarrow> string list" where
  "split_comma [] = [] # []"
| "split_comma (c # cs) =
     (if c = CHR '','' then [] # split_comma cs
      else (case split_comma cs of p # ps \<Rightarrow> (c # p) # ps | [] \<Rightarrow> [c] # []))"

text \<open>
  \<^verbatim>\<open>compressGeotag(geotag)\<close>. \<^verbatim>\<open>typeof geotag === 'object'\<close> holds of an object and
  of an array; an array has no \<^verbatim>\<open>lat\<close>. The destructuring
  \<^verbatim>\<open>[lat, lng] = geotag.split(',').map(parseFloat)\<close> takes the first two pieces; a
  string with a comma has at least two. The function has no \<^verbatim>\<open>try\<close>: an error
  thrown under \<^verbatim>\<open>coordsToCity\<close> is its own result.
\<close>

definition compressGeotag :: "builtins \<Rightarrow> jsval \<Rightarrow> js_error + string" where
  "compressGeotag B geotag =
     (if falsy geotag then Inr FALLBACK_CODE
      else case geotag of
        JStr s \<Rightarrow>
          if startsWith s ''MA-'' then Inr s
          else if List.member s CHR '','' then
            (case map (parseFloat B) (split_comma s) of
               la # lo # _ \<Rightarrow> coordsToCity B (JNum la) (JNum lo)
             | [la] \<Rightarrow> coordsToCity B (JNum la) JUndefined
             | [] \<Rightarrow> coordsToCity B JUndefined JUndefined)
          else Inr FALLBACK_CODE
      | JObj ps \<Rightarrow>
          if truthy (obj_get ps ''lat'') \<and> truthy (obj_get ps ''lng'')
          then coordsToCity B (obj_get ps ''lat'') (obj_get ps ''lng'')
          else Inr FALLBACK_CODE
      | _ \<Rightarrow> Inr FALLBACK_CODE)"

section \<open>Payload codec\<close>

definition FIELD_MAP :: "(string \<times> string) list" where
  "FIELD_MAP =
     [(''eventType'', ''e''), (''topicID'', ''t''), (''timestamp'', ''ts''), (''nonce'', ''n''),
      (''signature'', ''s''), (''validUntil'', ''u''), (''geoTag'', ''g''),
      (''hashedPatientId'', ''h''), (''maxDispenses'', ''md''), (''dispenseCount'', ''dc''),
      (''actorIdHash'', ''a''), (''amountMAD'', ''amt''), (''method'', ''m''),
      (''prevEventHash'', ''p'')]"

definition REVERSE_FIELD_MAP :: "(string \<times> jsval) list" where
  "REVERSE_FIELD_MAP = map (\<lambda>(k, v). (v, JStr k)) FIELD_MAP"

definition PAYMENT_METHODS :: "(string \<times> jsval) list" where
  "PAYMENT_METHODS =
     [(''cash'', JNum (Num 1)), (''card'', JNum (Num 2)), (''hbar'', JNum (Num 3)),
      (''1'', JStr ''cash''), (''2'', JStr ''card''), (''3'', JStr ''hbar'')]"

definition EVENT_TYPES :: "(string \<times> jsval) list" where
  "EVENT_TYPES =
     [(''issued'', JStr ''i''), (''verified'', JStr ''v''), (''paid'', JStr ''p''),
      (''dispensed'', JStr ''d''), (''cancelled'', JStr ''c''),
      (''i'', JStr ''issued''), (''v'', JStr ''verified''), (''p'', JStr ''paid''),
      (''d'', JStr ''dispensed''), (''c'', JStr ''cancelled'')]"

text \<open>
  \<^verbatim>\<open>compressTimestamp(isoTimestamp)\<close>: \<^verbatim>\<open>Math.floor(new Date(isoTimestamp).getTime() / 1000)\<close>,
  or the clock for a falsy argument. \<^verbatim>\<open>new Date(v)\<close> converts \<open>v\<close> to a primitive.
\<close>

definition compressTimestamp :: "builtins \<Rightarrow> jsval \<Rightarrow> js_error + jsval" where
  "compressTimestamp B isoTimestamp =
     (if falsy isoTimestamp then Inr (JNum (Num (of_int (date_now B div 1000))))
      else if to_number_throws isoTimestamp then Inl TypeError
      else case date_get_time B isoTimestamp of
        None \<Rightarrow> Inr (JNum NaN)
      | Some ms \<Rightarrow> Inr (JNum (Num (of_int (ms div 1000)))))"

text \<open>
  \<^verbatim>\<open>decompressTimestamp(epoch)\<close>: \<^verbatim>\<open>new Date(epoch * 1000).toISOString()\<close>, or the
  clock for a falsy argument. The product converts \<open>epoch\<close> to a number;
  \<^verbatim>\<open>toISOString\<close> throws RangeError on an invalid date.
\<close>

definition decompressTimestamp :: "builtins \<Rightarrow> jsval \<Rightarrow> js_error + string" where
  "decompressTimestamp B epoch =
     (if falsy epoch then Inr (date_now_iso B)
      else if to_number_throws epoch then Inl TypeError
      else case date_iso_of_seconds B epoch of
        None \<Rightarrow> Inl RangeError
      | Some isoString \<Rightarrow> Inr isoString)"

text \<open>
  \<^verbatim>\<open>fullPayload.nonce ? fullPayload.nonce.slice(0, 6) : ''\<close>: strings and arrays have
  \<^verbatim>\<open>slice\<close>; on any other truthy value the call throws.
\<close>

definition nonce_prefix :: "jsval \<Rightarrow> js_error + jsval" where
  "nonce_prefix nonce =
     (if truthy nonce then
        (case nonce of
           JStr s \<Rightarrow> Inr (JStr (take 6 s))
         | JArr xs \<Rightarrow> Inr (JArr (take 6 xs))
         | _ \<Rightarrow> Inl TypeError)
      else Inr (JStr []))"

text \<open>
  \<^verbatim>\<open>if (fullPayload.signature) compressed.s = removeHashPrefix(fullPayload.signature)\<close>,
  the same in the four compressors.
\<close>

definition with_signature :: "jsobj \<Rightarrow> jsobj \<Rightarrow> js_error + jsobj" where
  "with_signature fullPayload compressed =
     (if truthy (obj_get fullPayload ''signature'') then
        (case removeHashPrefix (obj_get fullPayload ''signature'') of
           Inl e \<Rightarrow> Inl e
         | Inr sg \<Rightarrow> Inr (obj_set compressed ''s'' (JStr sg)))
      else Inr compressed)"

text \<open>
  \<^verbatim>\<open>hashLookup.set(compressed.<short>, removeHashPrefix(fullPayload.<long>))\<close> under
  \<^verbatim>\<open>if (fullPayload.<long>)\<close>; \<open>k\<close> is \<^verbatim>\<open>compressed.<short>\<close>, the string
  \<^verbatim>\<open>truncateHash\<close> returned. The write is unconditional.
\<close>

definition store_hash :: "jsobj \<Rightarrow> string \<Rightarrow> string \<Rightarrow> lookup \<Rightarrow> js_error + lookup" where
  "store_hash fullPayload long k m =
     (if truthy (obj_get fullPayload long) then
        (case removeHashPrefix (obj_get fullPayload long) of
           Inl e \<Rightarrow> Inl e
         | Inr fullHash \<Rightarrow> Inr (m(k \<mapsto> fullHash)))
      else Inr m)"

text \<open>The block \<^verbatim>\<open>if (hashLookup) { actorIdHash ...; prevEventHash ... }\<close> of three compressors.\<close>

definition store_actor_hashes ::
  "jsobj \<Rightarrow> string \<Rightarrow> string \<Rightarrow> lookup option \<Rightarrow> js_error + lookup option" where
  "store_actor_hashes fullPayload a p hashLookup =
     (case hashLookup of
        None \<Rightarrow> Inr None
      | Some m \<Rightarrow>
          (case store_hash fullPayload ''actorIdHash'' a m of
             Inl e \<Rightarrow> Inl e
           | Inr m1 \<Rightarrow>
               (case store_hash fullPayload ''prevEventHash'' p m1 of
                  Inl e \<Rightarrow> Inl e
                | Inr m2 \<Rightarrow> Inr (Some m2))))"

text \<open>\<^verbatim>\<open>EVENT_TYPES[fullPayload.eventType] || '<default>'\<close>\<close>

definition event_code :: "builtins \<Rightarrow> jsobj \<Rightarrow> string \<Rightarrow> js_error + jsval" where
  "event_code B fullPayload dflt =
     (case index_table B EVENT_TYPES (obj_get fullPayload ''eventType'') of
        Inl e \<Rightarrow> Inl e
      | Inr c \<Rightarrow> Inr (js_or c (JStr dflt)))"

text \<open>
  The four compressors. Every error a compressor can throw is a TypeError, and it writes
  the table last, so the order in which the model evaluates the fields of the object
  literal does not show in the result.
\<close>

definition compressIssuedMessage ::
  "builtins \<Rightarrow> jsobj \<Rightarrow> lookup option \<Rightarrow> js_error + jsobj \<times> lookup option" where
  "compressIssuedMessage B fullPayload hashLookup =
     (case truncateHash (obj_get fullPayload ''hashedPatientId'') 8 of
        Inl e \<Rightarrow> Inl e
      | Inr h \<Rightarrow>
     (case nonce_prefix (obj_get fullPayload ''nonce'') of
        Inl e \<Rightarrow> Inl e
      | Inr n \<Rightarrow>
     (case event_code B fullPayload ''i'' of
        Inl e \<Rightarrow> Inl e
      | Inr ev \<Rightarrow>
     (case compressTimestamp B (obj_get fullPayload ''timestamp'') of
        Inl e \<Rightarrow> Inl e
      | Inr ts \<Rightarrow>
     (case compressTimestamp B (obj_get fullPayload ''validUntil'') of
        Inl e \<Rightarrow> Inl e
      | Inr u \<Rightarrow>
     (case compressGeotag B (obj_get fullPayload ''geoTag'') of
        Inl e \<Rightarrow> Inl e
      | Inr g \<Rightarrow>
     (case with_signature fullPayload
             [(''e'', ev),
              (''t'', obj_get fullPayload ''topicID''),
              (''ts'', ts),
              (''u'', u),
              (''g'', JStr g),
              (''h'', JStr h),
              (''md'', js_or (obj_get fullPayload ''maxDispenses'') (JNum (Num 1))),
              (''dc'', js_or (obj_get fullPayload ''dispenseCount'') (JNum (Num 0))),
              (''n'', n)] of
        Inl e \<Rightarrow> Inl e
      | Inr compressed \<Rightarrow>
     (case hashLookup of
        None \<Rightarrow> Inr (compressed, None)
      | Some m \<Rightarrow>
          (case store_hash fullPayload ''hashedPatientId'' h m of
             Inl e \<Rightarrow> Inl e
           | Inr m1 \<Rightarrow> Inr (compressed, Some m1))))))))))"

text \<open>
  \<^verbatim>\<open>if (fullPayload.amountMAD !== undefined) compressed.amt = Math.round(fullPayload.amountMAD)\<close>
  and
  \<^verbatim>\<open>if (fullPayload.method) compressed.m = PAYMENT_METHODS[fullPayload.method] || fullPayload.method\<close>
  of the PAID compressor.
\<close>

definition with_amount :: "builtins \<Rightarrow> jsobj \<Rightarrow> jsobj \<Rightarrow> js_error + jsobj" where
  "with_amount B fullPayload compressed =
     (if obj_get fullPayload ''amountMAD'' \<noteq> JUndefined then
        (if to_number_throws (obj_get fullPayload ''amountMAD'') then Inl TypeError
         else Inr (obj_set compressed ''amt''
                     (JNum (math_round B (obj_get fullPayload ''amountMAD'')))))
      else Inr compressed)"

definition with_method :: "builtins \<Rightarrow> jsobj \<Rightarrow> jsobj \<Rightarrow> js_error + jsobj" where
  "with_method B fullPayload compressed =
     (if truthy (obj_get fullPayload ''method'') then
        (case index_table B PAYMENT_METHODS (obj_get fullPayload ''method'') of
           Inl e \<Rightarrow> Inl e
         | Inr c \<Rightarrow> Inr (obj_set compressed ''m'' (js_or c (obj_get fullPayload ''method''))))
      else Inr compressed)"

definition compressPaidMessage ::
  "builtins \<Rightarrow> jsobj \<Rightarrow> lookup option \<Rightarrow> js_error + jsobj \<times> lookup option" where
  "compressPaidMessage B fullPayload hashLookup =
     (case truncateHash (obj_get fullPayload ''actorIdHash'') 8 of
        Inl e \<Rightarrow> Inl e
      | Inr a \<Rightarrow>
     (case truncateHash (obj_get fullPayload ''prevEventHash'') 8 of
        Inl e \<Rightarrow> Inl e
      | Inr p \<Rightarrow>
     (case nonce_prefix (obj_get fullPayload ''nonce'') of
        Inl e \<Rightarrow> Inl e
      | Inr n \<Rightarrow>
     (case event_code B fullPayload ''p'' of
        Inl e \<Rightarrow> Inl e
      | Inr ev \<Rightarrow>
     (case compressTimestamp B (obj_get fullPayload ''timestamp'') of
        Inl e \<Rightarrow> Inl e
      | Inr ts \<Rightarrow>
     (case with_amount B fullPayload
             [(''e'', ev),
              (''t'', obj_get fullPayload ''topicID''),
              (''ts'', ts),
              (''a'', JStr a),
              (''p'', JStr p),
              (''n'', n)] of
        Inl e \<Rightarrow> Inl e
      | Inr c1 \<Rightarrow>
     (case with_method B fullPayload c1 of
        Inl e \<Rightarrow> Inl e
      | Inr c2 \<Rightarrow>
     (case with_signature fullPayload c2 of
        Inl e \<Rightarrow> Inl e
      | Inr compressed \<Rightarrow>
          (case store_actor_hashes fullPayload a p hashLookup of
             Inl e \<Rightarrow> Inl e
           | Inr lk \<Rightarrow> Inr (compressed, lk))))))))))"

definition compressDispensedMessage ::
  "builtins \<Rightarrow> jsobj \<Rightarrow> lookup option \<Rightarrow> js_error + jsobj \<times> lookup option" where
  "compressDispensedMessage B fullPayload hashLookup =
     (case truncateHash (obj_get fullPayload ''actorIdHash'') 8 of
        Inl e \<Rightarrow> Inl e
      | Inr a \<Rightarrow>
     (case truncateHash (obj_get fullPayload ''prevEventHash'') 8 of
        Inl e \<Rightarrow> Inl e
      | Inr p \<Rightarrow>
     (case nonce_prefix (obj_get fullPayload ''nonce'') of
        Inl e \<Rightarrow> Inl e
      | Inr n \<Rightarrow>
     (case event_code B fullPayload ''d'' of
        Inl e \<Rightarrow> Inl e
      | Inr ev \<Rightarrow>
     (case compressTimestamp B (obj_get fullPayload ''timestamp'') of
        Inl e \<Rightarrow> Inl e
      | Inr ts \<Rightarrow>
     (case with_signature fullPayload
             [(''e'', ev),
              (''t'', obj_get fullPayload ''topicID''),
              (''ts'', ts),
              (''a'', JStr a),
              (''p'', JStr p),
              (''dc'', js_or (obj_get fullPayload ''dispenseCount'') (JNum (Num 0))),
              (''md'', js_or (obj_get fullPayload ''maxDispenses'') (JNum (Num 1))),
              (''n'', n)] of
        Inl e \<Rightarrow> Inl e
      | Inr compressed \<Rightarrow>
          (case store_actor_hashes fullPayload a p hashLookup of
             Inl e \<Rightarrow> Inl e
           | Inr lk \<Rightarrow> Inr (compressed, lk))))))))"

definition compressVerifiedMessage ::
  "builtins \<Rightarrow> jsobj \<Rightarrow> lookup option \<Rightarrow> js_error + jsobj \<times> lookup option" where
  "compressVerifiedMessage B fullPayload hashLookup =
     (case truncateHash (obj_get fullPayload ''actorIdHash'') 8 of
        Inl e \<Rightarrow> Inl e
      | Inr a \<Rightarrow>
     (case truncateHash (obj_get fullPayload ''prevEventHash'') 8 of
        Inl e \<Rightarrow> Inl e
      | Inr p \<Rightarrow>
     (case nonce_prefix (obj_get fullPayload ''nonce'') of
        Inl e \<Rightarrow> Inl e
      | Inr n \<Rightarrow>
     (case event_code B fullPayload ''v'' of
        Inl e \<Rightarrow> Inl e
      | Inr ev \<Rightarrow>
     (case compressTimestamp B (obj_get fullPayload ''timestamp'') of
        Inl e \<Rightarrow> Inl e
      | Inr ts \<Rightarrow>
     (let c0 = [(''e'', ev),
                (''t'', obj_get fullPayload ''topicID''),
                (''ts'', ts),
                (''a'', JStr a),
                (''p'', JStr p),
                (''dc'', js_or (obj_get fullPayload ''dispenseCount'') (JNum (Num 0))),
                (''md'', js_or (obj_get fullPayload ''maxDispenses'') (JNum (Num 1))),
                (''n'', n)];
          c1 = (if truthy (obj_get fullPayload ''fraudAlert'')
                then obj_set c0 ''f'' (JNum (Num 1)) else c0)
      in case with_signature fullPayload c1 of
           Inl e \<Rightarrow> Inl e
         | Inr compressed \<Rightarrow>
             (case store_actor_hashes fullPayload a p hashLookup of
                Inl e \<Rightarrow> Inl e
              | Inr lk \<Rightarrow> Inr (compressed, lk))))))))"

text \<open>
  \<^verbatim>\<open>compressPayload(fullPayload, hashLookup = null)\<close>. The \<^verbatim>\<open>switch\<close> compares with
  \<^verbatim>\<open>===\<close>. The result is the returned object and the table as the call leaves it.
\<close>

definition dispatch_type :: "jsobj \<Rightarrow> jsval" where
  "dispatch_type fullPayload = js_or (obj_get fullPayload ''eventType'') (obj_get fullPayload ''e'')"

definition compressPayload ::
  "builtins \<Rightarrow> jsobj \<Rightarrow> lookup option \<Rightarrow> js_error + jsobj \<times> lookup option" where
  "compressPayload B fullPayload hashLookup =
     (let eventType = dispatch_type fullPayload in
      if eventType = JStr ''issued'' \<or> eventType = JStr ''i''
        then compressIssuedMessage B fullPayload hashLookup
      else if eventType = JStr ''paid'' \<or> eventType = JStr ''p''
        then compressPaidMessage B fullPayload hashLookup
      else if eventType = JStr ''dispensed'' \<or> eventType = JStr ''d''
        then compressDispensedMessage B fullPayload hashLookup
      else if eventType = JStr ''verified'' \<or> eventType = JStr ''v''
        then compressVerifiedMessage B fullPayload hashLookup
      else Inr (fullPayload, hashLookup))"

text \<open>The loop of \<^verbatim>\<open>decompressPayload\<close> over \<^verbatim>\<open>Object.entries(compressedPayload)\<close>.\<close>

fun decompress_entries :: "builtins \<Rightarrow> jsobj \<Rightarrow> jsobj \<Rightarrow> js_error + jsobj" where
  "decompress_entries B [] fl = Inr fl"
| "decompress_entries B ((shortKey, v) # rest) fl =
     (if shortKey = ''e'' then
        (case index_table B EVENT_TYPES v of
           Inl e \<Rightarrow> Inl e
         | Inr c \<Rightarrow> decompress_entries B rest (obj_set fl ''eventType'' (js_or c v)))
      else if shortKey = ''ts'' then
        (case decompressTimestamp B v of
           Inl e \<Rightarrow> Inl e
         | Inr isoString \<Rightarrow> decompress_entries B rest (obj_set fl ''timestamp'' (JStr isoString)))
      else if shortKey = ''u'' then
        (case decompressTimestamp B v of
           Inl e \<Rightarrow> Inl e
         | Inr isoString \<Rightarrow> decompress_entries B rest (obj_set fl ''validUntil'' (JStr isoString)))
      else
        decompress_entries B rest
          (obj_set fl (to_key B (js_or (table_get REVERSE_FIELD_MAP shortKey) (JStr shortKey))) v))"

text \<open>
  \<^verbatim>\<open>if (full.<short> && hashLookup.has(full.<short>)) full.<long> = `sha256:${hashLookup.get(full.<short>)}`\<close>.
  The table's keys are strings, so it has no other value.
\<close>

definition expand_hash :: "lookup \<Rightarrow> jsobj \<Rightarrow> string \<Rightarrow> string \<Rightarrow> jsobj" where
  "expand_hash m fl short long =
     (case obj_get fl short of
        JStr k \<Rightarrow>
          (case m k of
             Some fullHash \<Rightarrow> if k \<noteq> [] then obj_set fl long (JStr (''sha256:'' @ fullHash)) else fl
           | None \<Rightarrow> fl)
      | _ \<Rightarrow> fl)"

text \<open>
  \<^verbatim>\<open>if (full.<field> && !full.<field>.startsWith(<prefix>)) full.<field> = `<prefix>${full.<field>}`\<close>:
  only a string has \<^verbatim>\<open>startsWith\<close>.
\<close>

definition add_prefix :: "jsobj \<Rightarrow> string \<Rightarrow> string \<Rightarrow> js_error + jsobj" where
  "add_prefix fl field pre =
     (if truthy (obj_get fl field) then
        (case obj_get fl field of
           JStr s \<Rightarrow> Inr (if startsWith s pre then fl else obj_set fl field (JStr (pre @ s)))
         | _ \<Rightarrow> Inl TypeError)
      else Inr fl)"

text \<open>
  \<^verbatim>\<open>if (full.m && PAYMENT_METHODS[full.m]) full.method = PAYMENT_METHODS[full.m]\<close>
\<close>

definition expand_method :: "builtins \<Rightarrow> jsobj \<Rightarrow> js_error + jsobj" where
  "expand_method B fl =
     (if truthy (obj_get fl ''m'') then
        (case index_table B PAYMENT_METHODS (obj_get fl ''m'') of
           Inl e \<Rightarrow> Inl e
         | Inr c \<Rightarrow> Inr (if truthy c then obj_set fl ''method'' c else fl))
      else Inr fl)"

definition decompressPayload :: "builtins \<Rightarrow> jsobj \<Rightarrow> lookup option \<Rightarrow> js_error + jsobj" where
  "decompressPayload B compressedPayload hashLookup =
     (if truthy (obj_get compressedPayload ''eventType'') then Inr compressedPayload
      else case decompress_entries B compressedPayload [] of
        Inl e \<Rightarrow> Inl e
      | Inr f0 \<Rightarrow>
     (case expand_method B f0 of
        Inl e \<Rightarrow> Inl e
      | Inr f1 \<Rightarrow>
     (let f2 = (case hashLookup of
                  None \<Rightarrow> f1
                | Some m \<Rightarrow>
                    expand_hash m
                      (expand_hash m
                         (expand_hash m f1 ''h'' ''hashedPatientId'')
                         ''a'' ''actorIdHash'')
                      ''p'' ''prevEventHash'')
      in case add_prefix f2 ''hashedPatientId'' ''sha256:'' of
           Inl e \<Rightarrow> Inl e
         | Inr f3 \<Rightarrow>
             (case add_prefix f3 ''actorIdHash'' ''sha256:'' of
                Inl e \<Rightarrow> Inl e
              | Inr f4 \<Rightarrow> add_prefix f4 ''signature'' ''hex:''))))"

section \<open>Status reconciliation\<close>

subsection \<open>The local store\<close>

record store_entry =
  payload :: jsval
  insertedAt :: int
  validUntil :: jsval
  entry_status :: string

type_synonym store = "string \<rightharpoonup> store_entry"

definition setTopicStatus :: "int \<Rightarrow> string \<Rightarrow> string \<Rightarrow> store \<Rightarrow> store" where
  "setTopicStatus now topicId st inMemoryStore =
     (case inMemoryStore topicId of
        Some entry \<Rightarrow> inMemoryStore(topicId \<mapsto> entry\<lparr>entry_status := st\<rparr>)
      | None \<Rightarrow>
          inMemoryStore(topicId \<mapsto>
            \<lparr>payload = JNull, insertedAt = now, validUntil = JNull, entry_status = st\<rparr>))"

subsection \<open>The dispense lock\<close>

record dispense_lock =
  pharmacistId :: string
  lock_timestamp :: int

type_synonym lock_table = "string \<rightharpoonup> dispense_lock"

definition DISPENSE_LOCK_TIMEOUT :: int where
  "DISPENSE_LOCK_TIMEOUT = 30000"

text \<open>
  \<^verbatim>\<open>acquireDispenseLock(topicId, pharmacistId)\<close> reads the clock twice: \<open>now_check\<close>
  is \<^verbatim>\<open>Date.now()\<close> where the age of an existing lock is computed, \<open>now_set\<close> where
  the new lock is stamped. The result is the returned boolean and the table
  \<^verbatim>\<open>activeDispenseOperations\<close> as the call leaves it.
\<close>

definition acquireDispenseLock ::
  "int \<Rightarrow> int \<Rightarrow> string \<Rightarrow> string \<Rightarrow> lock_table \<Rightarrow> bool \<times> lock_table" where
  "acquireDispenseLock now_check now_set topicId pid activeDispenseOperations =
     (case activeDispenseOperations topicId of
        Some existing \<Rightarrow>
          (let age = now_check - lock_timestamp existing in
           if age > DISPENSE_LOCK_TIMEOUT then
             (True, (activeDispenseOperations(topicId := None))
                      (topicId \<mapsto> \<lparr>pharmacistId = pid, lock_timestamp = now_set\<rparr>))
           else (False, activeDispenseOperations))
      | None \<Rightarrow>
          (True, activeDispenseOperations
                   (topicId \<mapsto> \<lparr>pharmacistId = pid, lock_timestamp = now_set\<rparr>)))"

definition releaseDispenseLock :: "string \<Rightarrow> lock_table \<Rightarrow> lock_table" where
  "releaseDispenseLock topicId activeDispenseOperations = activeDispenseOperations(topicId := None)"

definition isDispenseLocked :: "int \<Rightarrow> string \<Rightarrow> lock_table \<Rightarrow> bool \<times> lock_table" where
  "isDispenseLocked now topicId activeDispenseOperations =
     (case activeDispenseOperations topicId of
        None \<Rightarrow> (False, activeDispenseOperations)
      | Some lck \<Rightarrow>
          if now - lock_timestamp lck > DISPENSE_LOCK_TIMEOUT
          then (False, activeDispenseOperations(topicId := None))
          else (True, activeDispenseOperations))"

subsection \<open>Pending confirmations\<close>

text \<open>
  A pending record is a mutable object: \<^verbatim>\<open>retryConfirmation\<close> keeps a reference to it
  across its \<^verbatim>\<open>await\<close>, while \<^verbatim>\<open>submitStatusUpdate\<close> may put a new object
  under the same topic. So the records live in a store of objects (\<open>heap\<close>, by address)
  and \<^verbatim>\<open>pendingConfirmations\<close> maps a topic to an address. \<open>timers\<close> are the
  callbacks \<^verbatim>\<open>setTimeout\<close> holds (topic and delay); \<open>awaiting\<close> are the calls of
  \<^verbatim>\<open>retryConfirmation\<close> suspended at their \<^verbatim>\<open>await\<close> (topic and the record they
  hold in \<^verbatim>\<open>pending\<close>). When a timer fires is not modelled: any of them may.
\<close>

record pending =
  status :: string
  timestamp :: int
  retries :: nat
  confirmed :: bool
  metadata :: jsval

record recon_state =
  heap :: "nat \<rightharpoonup> pending"
  next_addr :: nat
  pendingConfirmations :: "string \<rightharpoonup> nat"
  inMemoryStore :: store
  timers :: "(string \<times> nat) list"
  awaiting :: "(string \<times> nat) list"

definition MAX_RETRIES :: nat where
  "MAX_RETRIES = 5"

definition RETRY_DELAYS :: "nat list" where
  "RETRY_DELAYS = [2000, 5000, 10000, 20000, 30000]"

text \<open>\<^verbatim>\<open>RETRY_DELAYS[pending.retries] || RETRY_DELAYS[RETRY_DELAYS.length - 1]\<close>\<close>

definition retry_delay :: "nat \<Rightarrow> nat" where
  "retry_delay n = (if n < length RETRY_DELAYS then RETRY_DELAYS ! n else last RETRY_DELAYS)"

definition initial_state :: recon_state where
  "initial_state =
     \<lparr>heap = Map.empty, next_addr = 0, pendingConfirmations = Map.empty,
      inMemoryStore = Map.empty, timers = [], awaiting = []\<rparr>"

definition scheduleRetry :: "string \<Rightarrow> recon_state \<Rightarrow> recon_state" where
  "scheduleRetry topicId s =
     (case pendingConfirmations s topicId of
        None \<Rightarrow> s
      | Some a \<Rightarrow>
          (case heap s a of
             None \<Rightarrow> s
           | Some r \<Rightarrow>
               if confirmed r then s
               else s\<lparr>timers := timers s @ [(topicId, retry_delay (retries r))]\<rparr>))"

text \<open>
  \<^verbatim>\<open>submitStatusUpdate(topicId, newStatus, metadata)\<close>; \<open>now_store\<close> and \<open>now\<close> are its
  two readings of the clock.
\<close>

definition submitStatusUpdate ::
  "int \<Rightarrow> int \<Rightarrow> string \<Rightarrow> string \<Rightarrow> jsval \<Rightarrow> recon_state \<Rightarrow> recon_state" where
  "submitStatusUpdate now_store now topicId newStatus meta s =
     scheduleRetry topicId
       (s\<lparr>inMemoryStore := setTopicStatus now_store topicId newStatus (inMemoryStore s),
          heap := (heap s)(next_addr s \<mapsto>
            \<lparr>status = newStatus, timestamp = now, retries = 0, confirmed = False, metadata = meta\<rparr>),
          next_addr := Suc (next_addr s),
          pendingConfirmations := (pendingConfirmations s)(topicId \<mapsto> next_addr s)\<rparr>)"

text \<open>\<^verbatim>\<open>retryConfirmation(topicId)\<close> up to its \<^verbatim>\<open>await\<close>.\<close>

definition retry_begin :: "string \<Rightarrow> recon_state \<Rightarrow> recon_state" where
  "retry_begin topicId s =
     (case pendingConfirmations s topicId of
        None \<Rightarrow> s
      | Some a \<Rightarrow>
          (case heap s a of
             None \<Rightarrow> s
           | Some r \<Rightarrow>
               if confirmed r then s
               else s\<lparr>awaiting := awaiting s @ [(topicId, a)]\<rparr>))"

text \<open>
  What \<^verbatim>\<open>getTopicStatusFromHedera\<close> gives back to the \<^verbatim>\<open>await\<close>: a status, or a
  rejection (the \<^verbatim>\<open>catch\<close> branch).
\<close>

datatype mirror_result = Resolved string | Rejected

text \<open>
  \<^verbatim>\<open>retryConfirmation(topicId)\<close> from its \<^verbatim>\<open>await\<close> on; \<open>a\<close> is the object the
  call holds in \<^verbatim>\<open>pending\<close>.
\<close>

definition count_retry :: "string \<Rightarrow> nat \<Rightarrow> pending \<Rightarrow> bool \<Rightarrow> recon_state \<Rightarrow> recon_state" where
  "count_retry topicId a r mark_failed s =
     (let r' = r\<lparr>retries := Suc (retries r)\<rparr> in
      if retries r' < MAX_RETRIES then scheduleRetry topicId (s\<lparr>heap := (heap s)(a \<mapsto> r')\<rparr>)
      else if mark_failed then s\<lparr>heap := (heap s)(a \<mapsto> r'\<lparr>confirmed := False\<rparr>)\<rparr>
      else s\<lparr>heap := (heap s)(a \<mapsto> r')\<rparr>)"

definition retry_resume ::
  "int \<Rightarrow> string \<Rightarrow> nat \<Rightarrow> mirror_result \<Rightarrow> recon_state \<Rightarrow> recon_state" where
  "retry_resume now topicId a res s =
     (case heap s a of
        None \<Rightarrow> s
      | Some r \<Rightarrow>
          (case res of
             Resolved mirrorStatus \<Rightarrow>
               if mirrorStatus = status r then
                 s\<lparr>heap := (heap s)(a \<mapsto> r\<lparr>confirmed := True\<rparr>),
                   pendingConfirmations := (pendingConfirmations s)(topicId := None)\<rparr>
               else if mirrorStatus \<noteq> ''unknown'' then
                 s\<lparr>inMemoryStore := setTopicStatus now topicId mirrorStatus (inMemoryStore s),
                   heap := (heap s)(a \<mapsto> r\<lparr>status := mirrorStatus, confirmed := True\<rparr>),
                   pendingConfirmations := (pendingConfirmations s)(topicId := None)\<rparr>
               else count_retry topicId a r True s
           | Rejected \<Rightarrow> count_retry topicId a r False s))"

text \<open>\<^verbatim>\<open>getConfirmationStatus(topicId)\<close>; \<open>None\<close> is \<^verbatim>\<open>null\<close> or a key left out.\<close>

record confirmation_status =
  cs_confirmed :: bool
  cs_status :: "string option"
  isPending :: bool
  cs_retries :: "nat option"
  age :: "int option"

definition getConfirmationStatus :: "int \<Rightarrow> string \<Rightarrow> recon_state \<Rightarrow> confirmation_status" where
  "getConfirmationStatus now topicId s =
     (case pendingConfirmations s topicId of
        None \<Rightarrow>
          \<lparr>cs_confirmed = True, cs_status = None, isPending = False, cs_retries = None, age = None\<rparr>
      | Some a \<Rightarrow>
          (case heap s a of
             None \<Rightarrow>
               \<lparr>cs_confirmed = True, cs_status = None, isPending = False, cs_retries = None, age = None\<rparr>
           | Some r \<Rightarrow>
               \<lparr>cs_confirmed = confirmed r, cs_status = Some (status r), isPending = True,
                cs_retries = Some (retries r), age = Some (now - timestamp r)\<rparr>))"

text \<open>
  The states the service can be in between two of its steps: a caller submits a status,
  a timer fires and \<^verbatim>\<open>retryConfirmation\<close> runs up to its \<^verbatim>\<open>await\<close>, a suspended
  \<^verbatim>\<open>retryConfirmation\<close> gets its answer and runs to its end, or the background sweep
  sets a topic's local status.
\<close>

inductive reachable :: "recon_state \<Rightarrow> bool" where
  start: "reachable initial_state"
| submit: "reachable s \<Longrightarrow> reachable (submitStatusUpdate now_store now topicId newStatus meta s)"
| fire: "reachable s \<Longrightarrow> (topicId, d) \<in> set (timers s) \<Longrightarrow>
         reachable (retry_begin topicId (s\<lparr>timers := remove1 (topicId, d) (timers s)\<rparr>))"
| resume: "reachable s \<Longrightarrow> (topicId, a) \<in> set (awaiting s) \<Longrightarrow>
           reachable (retry_resume now topicId a res (s\<lparr>awaiting := remove1 (topicId, a) (awaiting s)\<rparr>))"
| sweep: "reachable s \<Longrightarrow>
          reachable (s\<lparr>inMemoryStore := setTopicStatus now topicId mirrorStatus (inMemoryStore s)\<rparr>)"

text \<open>No timer is pending and no check is waiting for its answer.\<close>

definition quiescent :: "recon_state \<Rightarrow> bool" where
  "quiescent s = (timers s = [] \<and> awaiting s = [])"

section \<open>A runtime for the closed examples\<close>

text \<open>
  The closed examples below run the code in this runtime. It answers as Node.js does on
  the values the examples pass to the built-ins (two dates, one amount, two
  coordinates, the distance from a city's centre to itself, the SHA-256 digests of two
  strings) and gives NaN, an invalid date or the empty string on every other value.
\<close>

definition example_runtime :: builtins where
  "example_runtime =
     \<lparr>date_now = 1761652800000,
      date_now_iso = ''2025-10-28T12:00:00.000Z'',
      date_get_time =
        (\<lambda>v. if v = JStr ''2025-10-28T12:00:00.000Z'' then Some 1761652800000
             else if v = JStr ''2025-12-27T12:00:00.000Z'' then Some 1766836800000
             else None),
      date_iso_of_seconds =
        (\<lambda>v. if v = JNum (Num 1761652800) then Some ''2025-10-28T12:00:00.000Z''
             else if v = JNum (Num 1766836800) then Some ''2025-12-27T12:00:00.000Z''
             else None),
      math_round = (\<lambda>v. if v = JNum (Num (15075 / 100)) then Num 151 else NaN),
      parseFloat =
        (\<lambda>s. if s = ''33.5731'' then Num (335731 / 10000)
             else if s = ''-7.5898'' then Num (- (75898 / 10000))
             else NaN),
      to_string_other = (\<lambda>v. if v = JNum (Num 1) then ''1'' else []),
      sha256_hex =
        (\<lambda>d. if d = ''patient-759''
               then ''257a4e6ce5c9045d4b949970d47a4022631294b551a5bf4d6b5da26be8bf70f8''
             else if d = ''patient-123328''
               then ''257a4e6c98c261b4342ef3ce208f6e65eb9cc6bfccdda278c8f9e56fb5836803''
             else []),
      haversineDistance =
        (\<lambda>la lo clat clng. if la = JNum (Num clat) \<and> lo = JNum (Num clng) then DNum 0 else DNaN)\<rparr>"

section \<open>Vocabulary of the statements\<close>

text \<open>The event types \<^verbatim>\<open>compressPayload\<close> has a \<^verbatim>\<open>case\<close> for.\<close>

definition handled_event_types :: "string list" where
  "handled_event_types = [''issued'', ''i'', ''paid'', ''p'', ''dispensed'', ''d'', ''verified'', ''v'']"

definition catalogue_codes :: "string list" where
  "catalogue_codes = map code MOROCCAN_CITIES"



text \<open>What \<^verbatim>\<open>getConfirmationStatus\<close> returns for a topic with no pending record.\<close>

definition no_pending :: confirmation_status where
  "no_pending =
     \<lparr>cs_confirmed = True, cs_status = None, isPending = False, cs_retries = None, age = None\<rparr>"

text \<open>
  The invariant of the reconciliation service. Every record in the table is allocated
  and unconfirmed; a suspended check holds an allocated record, and the only topic that
  record can still stand under is the check's own; no record stands under two topics;
  and a record in the table that has not used up its retries has a timer pending or a
  check waiting for its answer.
\<close>

definition unconfirmed_inv :: "recon_state \<Rightarrow> bool" where
  "unconfirmed_inv s =
     (\<forall>t a. pendingConfirmations s t = Some a \<longrightarrow>
        a < next_addr s \<and> (\<exists>r. heap s a = Some r \<and> \<not> confirmed r))"

definition awaiting_inv :: "recon_state \<Rightarrow> bool" where
  "awaiting_inv s =
     (\<forall>t a. (t, a) \<in> set (awaiting s) \<longrightarrow>
        a < next_addr s \<and> heap s a \<noteq> None
        \<and> (\<forall>t'. pendingConfirmations s t' = Some a \<longrightarrow> t' = t))"

definition injective_inv :: "recon_state \<Rightarrow> bool" where
  "injective_inv s =
     (\<forall>t t' a. pendingConfirmations s t = Some a \<longrightarrow>
        pendingConfirmations s t' = Some a \<longrightarrow> t = t')"

definition scheduled_inv :: "recon_state \<Rightarrow> bool" where
  "scheduled_inv s =
     (\<forall>t a r. pendingConfirmations s t = Some a \<longrightarrow> heap s a = Some r \<longrightarrow>
        retries r < MAX_RETRIES \<longrightarrow>
        (\<exists>d. (t, d) \<in> set (timers s)) \<or> (t, a) \<in> set (awaiting s))"

definition recon_inv :: "recon_state \<Rightarrow> bool" where
  "recon_inv s = (unconfirmed_inv s \<and> awaiting_inv s \<and> injective_inv s \<and> scheduled_inv s)"

text \<open>
  The two ways a resumed check ends: it settles the topic (the record is marked confirmed
  and the topic's entry deleted), or it counts one more retry.
\<close>

definition settled_by :: "string \<Rightarrow> nat \<Rightarrow> recon_state \<Rightarrow> recon_state \<Rightarrow> bool" where
  "settled_by topicId a s s' =
     (next_addr s' = next_addr s \<and> awaiting s' = remove1 (topicId, a) (awaiting s)
      \<and> timers s' = timers s
      \<and> pendingConfirmations s' = (pendingConfirmations s)(topicId := None)
      \<and> (\<exists>r1. heap s' = (heap s)(a \<mapsto> r1)))"

definition counted_by :: "string \<Rightarrow> nat \<Rightarrow> pending \<Rightarrow> recon_state \<Rightarrow> recon_state \<Rightarrow> bool" where
  "counted_by topicId a r s s' =
     (next_addr s' = next_addr s \<and> awaiting s' = remove1 (topicId, a) (awaiting s)
      \<and> pendingConfirmations s' = pendingConfirmations s
      \<and> (\<exists>r2. heap s' = (heap s)(a \<mapsto> r2) \<and> retries r2 = Suc (retries r)
               \<and> (confirmed r2 \<longrightarrow> confirmed r))
      \<and> ((timers s' = timers s
            \<and> (pendingConfirmations s topicId = None \<or> MAX_RETRIES \<le> Suc (retries r)))
          \<or> (\<exists>d. timers s' = timers s @ [(topicId, d)])))"

section \<open>Example inputs\<close>

text \<open>The ISSUED event of the repository's round-trip test, and its wire form.\<close>

definition example_issued :: jsobj where
  "example_issued =
     [(''eventType'', JStr ''issued''), (''topicID'', JStr ''0.0.12345''),
      (''timestamp'', JStr ''2025-10-28T12:00:00.000Z''),
      (''validUntil'', JStr ''2025-12-27T12:00:00.000Z''),
      (''geoTag'', JStr ''MA-CAS''),
      (''hashedPatientId'', JStr ''sha256:a7f3c2d1e8b4a9f6''),
      (''maxDispenses'', JNum (Num 2)), (''dispenseCount'', JNum (Num 0)),
      (''nonce'', JStr ''abc123''), (''signature'', JStr ''hex:sig'')]"

definition example_issued_wire :: jsobj where
  "example_issued_wire =
     [(''e'', JStr ''i''), (''t'', JStr ''0.0.12345''),
      (''ts'', JNum (Num 1761652800)), (''u'', JNum (Num 1766836800)),
      (''g'', JStr ''MA-CAS''), (''h'', JStr ''a7f3c2d1''),
      (''md'', JNum (Num 2)), (''dc'', JNum (Num 0)),
      (''n'', JStr ''abc123''), (''s'', JStr ''sig'')]"

text \<open>
  The same event for another patient, whose hash starts with the same eight digits.
\<close>

definition example_issued_other :: jsobj where
  "example_issued_other =
     [(''eventType'', JStr ''issued''), (''topicID'', JStr ''0.0.67890''),
      (''timestamp'', JStr ''2025-10-28T12:00:00.000Z''),
      (''validUntil'', JStr ''2025-12-27T12:00:00.000Z''),
      (''geoTag'', JStr ''MA-RAB''),
      (''hashedPatientId'', JStr ''sha256:a7f3c2d10b5c6d7e''),
      (''maxDispenses'', JNum (Num 1)), (''dispenseCount'', JNum (Num 0)),
      (''nonce'', JStr ''def456''), (''signature'', JStr ''hex:sig2'')]"

definition example_issued_other_wire :: jsobj where
  "example_issued_other_wire =
     [(''e'', JStr ''i''), (''t'', JStr ''0.0.67890''),
      (''ts'', JNum (Num 1761652800)), (''u'', JNum (Num 1766836800)),
      (''g'', JStr ''MA-RAB''), (''h'', JStr ''a7f3c2d1''),
      (''md'', JNum (Num 1)), (''dc'', JNum (Num 0)),
      (''n'', JStr ''def456''), (''s'', JStr ''sig2'')]"

text \<open>A PAID event paid in cash, and the wire form of a VERIFIED event.\<close>

definition example_paid :: jsobj where
  "example_paid =
     [(''eventType'', JStr ''paid''), (''topicID'', JStr ''0.0.12345''),
      (''timestamp'', JStr ''2025-10-28T12:00:00.000Z''),
      (''actorIdHash'', JStr ''sha256:b2e4c1d5a8f7b3e9''),
      (''amountMAD'', JNum (Num (15075 / 100))),
      (''method'', JStr ''cash''),
      (''prevEventHash'', JStr ''sha256:c1d5e7a1f4b8c2d6''),
      (''nonce'', JStr ''nonce123''), (''signature'', JStr ''hex:sig123'')]"

definition example_paid_wire :: jsobj where
  "example_paid_wire =
     [(''e'', JStr ''p''), (''t'', JStr ''0.0.12345''), (''ts'', JNum (Num 1761652800)),
      (''a'', JStr ''b2e4c1d5''), (''p'', JStr ''c1d5e7a1''), (''n'', JStr ''nonce1''),
      (''amt'', JNum (Num 151)), (''m'', JNum (Num 1)), (''s'', JStr ''sig123'')]"

definition example_verified_wire :: jsobj where
  "example_verified_wire =
     [(''e'', JStr ''v''), (''t'', JStr ''0.0.12345''), (''ts'', JNum (Num 1761652800)),
      (''a'', JStr ''b2e4c1d5''), (''p'', JStr ''c1d5e7a1''),
      (''dc'', JNum (Num 0)), (''md'', JNum (Num 1)), (''n'', JStr ''nonce1'')]"

text \<open>
  States of the reconciliation service: a status was submitted; its first timer has
  fired and the check waits for the ledger's answer; five checks in a row came back
  "unknown".
\<close>

definition unknown_round :: "string \<Rightarrow> nat \<Rightarrow> nat \<Rightarrow> recon_state \<Rightarrow> recon_state" where
  "unknown_round topicId d a s =
     (let s1 = retry_begin topicId (s\<lparr>timers := remove1 (topicId, d) (timers s)\<rparr>)
      in retry_resume 0 topicId a (Resolved ''unknown'')
           (s1\<lparr>awaiting := remove1 (topicId, a) (awaiting s1)\<rparr>))"

definition example_record :: "nat \<Rightarrow> pending" where
  "example_record n =
     \<lparr>status = ''paid'', timestamp = 1000, retries = n, confirmed = False, metadata = JNull\<rparr>"

definition example_submitted :: recon_state where
  "example_submitted = submitStatusUpdate 1000 1000 ''0.0.12345'' ''paid'' JNull initial_state"

definition example_awaiting :: recon_state where
  "example_awaiting =
     retry_begin ''0.0.12345''
       (example_submitted\<lparr>timers := remove1 (''0.0.12345'', 2000) (timers example_submitted)\<rparr>)"

definition example_exhausted :: recon_state where
  "example_exhausted =
     unknown_round ''0.0.12345'' 30000 0
       (unknown_round ''0.0.12345'' 20000 0
          (unknown_round ''0.0.12345'' 10000 0
             (unknown_round ''0.0.12345'' 5000 0
                (unknown_round ''0.0.12345'' 2000 0 example_submitted))))"

section \<open>Evaluation rules\<close>

lemmas js_simps = obj_get_def js_or_def falsy_def table_get_def to_key_def index_table_def
  to_number_throws_def to_key_throws_def
  native_to_string_def
  object_prototype_members_def startsWith_def strip_hash_prefix_def is_hex_char_def
  is_hex_string_def toLowerCase_char_def toLowerCase_def truncate_string_def truncateHash_def
  removeHashPrefix_def

lemmas codec_simps = FIELD_MAP_def REVERSE_FIELD_MAP_def PAYMENT_METHODS_def EVENT_TYPES_def
  compressTimestamp_def decompressTimestamp_def nonce_prefix_def with_signature_def
  store_hash_def store_actor_hashes_def event_code_def with_amount_def with_method_def
  expand_method_def compressIssuedMessage_def
  compressPaidMessage_def compressDispensedMessage_def compressVerifiedMessage_def
  dispatch_type_def compressPayload_def expand_hash_def add_prefix_def decompressPayload_def

lemmas geo_simps = FALLBACK_CODE_def compressGeotag_def coordsToCity_def MOROCCAN_CITIES_def
  haversine_call_def dist_le_def dist_less_min_def

lemmas example_simps = example_runtime_def example_issued_def example_issued_wire_def
  example_issued_other_def example_issued_other_wire_def example_paid_def example_paid_wire_def
  example_verified_wire_def

section \<open>Objects\<close>

lemma map_of_obj_set: "map_of (obj_set ps k v) = (map_of ps)(k \<mapsto> v)"
  by (induction ps) (auto simp: fun_eq_iff)

lemma obj_get_obj_set: "obj_get (obj_set ps k v) k' = (if k' = k then v else obj_get ps k')"
  by (simp add: obj_get_def map_of_obj_set)

section \<open>Decompression never reads the lookup table\<close>

text \<open>
  The loop of \<^verbatim>\<open>decompressPayload\<close> stores every entry under its long name, so the
  object it builds has no property \<^verbatim>\<open>m\<close>, \<^verbatim>\<open>h\<close>, \<^verbatim>\<open>a\<close> or \<^verbatim>\<open>p\<close>: the
  long name of a key is never one of these four.
\<close>

lemma long_key_not_short:
  "\<not> List.member [''m'', ''h'', ''a'', ''p'']
       (to_key B (js_or (table_get REVERSE_FIELD_MAP sk) (JStr sk)))"
  by (auto simp: js_simps REVERSE_FIELD_MAP_def FIELD_MAP_def split: if_splits)

lemma decompress_entries_keeps_undefined:
  "decompress_entries B w fl = Inr f \<Longrightarrow> List.member [''m'', ''h'', ''a'', ''p''] k \<Longrightarrow>
   obj_get fl k = JUndefined \<Longrightarrow> obj_get f k = JUndefined"
proof (induction w arbitrary: fl)
  case Nil
  then show ?case by simp
next
  case (Cons e w)
  obtain sk v where e: "e = (sk, v)" by (cases e)
  from long_key_not_short [of B sk] Cons.prems(2)
  have ne: "k \<noteq> to_key B (js_or (table_get REVERSE_FIELD_MAP sk) (JStr sk))" by auto
  from Cons.prems(2)
  have k4: "k \<noteq> ''eventType'' \<and> k \<noteq> ''timestamp'' \<and> k \<noteq> ''validUntil''" by auto
  show ?case using Cons.prems Cons.IH ne k4 unfolding e
    by (auto simp: obj_get_obj_set split: if_splits sum.splits)
qed

text \<open>
  So the tests \<^verbatim>\<open>full.m\<close>, \<^verbatim>\<open>full.h\<close>, \<^verbatim>\<open>full.a\<close> and \<^verbatim>\<open>full.p\<close> that guard
  the expansion of the payment method and of the three hashes always fail, and a call
  with a table returns what the call without one returns.
\<close>

lemma decompressPayload_ignores_lookup:
  "decompressPayload B w (Some m) = decompressPayload B w None"
proof (cases "decompress_entries B w []")
  case (Inl e)
  then show ?thesis by (simp add: decompressPayload_def)
next
  case (Inr f0)
  have u: "obj_get f0 ''m'' = JUndefined" "obj_get f0 ''h'' = JUndefined"
    "obj_get f0 ''a'' = JUndefined" "obj_get f0 ''p'' = JUndefined"
    using decompress_entries_keeps_undefined [OF Inr] by (simp_all add: obj_get_def)
  show ?thesis using Inr u by (simp add: decompressPayload_def expand_method_def expand_hash_def)
qed

text \<open>
  In particular a payment-method code is handed back as the code it is, whatever it is
  and whatever table is passed.
\<close>

lemma decompress_method_code_kept:
  "decompressPayload B [(''e'', JStr ''p''), (''m'', v)] hashLookup
     = Inr [(''eventType'', JStr ''paid''), (''method'', v)]"
proof -
  have "decompressPayload B [(''e'', JStr ''p''), (''m'', v)] None
     = Inr [(''eventType'', JStr ''paid''), (''method'', v)]"
    by (simp add: js_simps codec_simps)
  then show ?thesis
    by (cases hashLookup) (simp_all add: decompressPayload_ignores_lookup)
qed

section \<open>Compression writes the lookup table unconditionally\<close>

text \<open>
  Whenever \<^verbatim>\<open>compressIssuedMessage\<close> returns for an event with a patient hash, the
  table it leaves is the table it got with the full hash written under the
  eight-character key, whatever that key held before.
\<close>

lemma compressIssuedMessage_store:
  assumes "obj_get fullPayload ''hashedPatientId'' = JStr s" and "s \<noteq> []"
    and "compressIssuedMessage B fullPayload (Some m) = Inr (compressed, lk)"
  shows "lk = Some (m(truncate_string s 8 \<mapsto> strip_hash_prefix s))
       \<and> obj_get compressed ''h'' = JStr (truncate_string s 8)"
  using assms
  by (auto simp: compressIssuedMessage_def truncateHash_def removeHashPrefix_def falsy_def
      store_hash_def with_signature_def obj_get_obj_set obj_get_def
      split: sum.splits if_splits)

section \<open>Claims C1 to C4: what compression stores and decompression restores\<close>

text \<open>
  Claim C1 (payment method codes). Compressing a PAID event whose method is "cash"
  gives a wire object with \<open>m = 1\<close>, as the claim says. The way back is where the code
  departs from it: decompressing that wire object leaves \<open>method\<close> at the number 1 and
  not at the string "cash". The loop has stored the value of \<open>m\<close> under \<open>method\<close>, and the
  branch that would put the name back reads \<^verbatim>\<open>full.m\<close>, which the loop never writes.
\<close>

theorem paid_method_code_not_expanded:
  "compressPayload example_runtime example_paid None = Inr (example_paid_wire, None)
   \<and> obj_get example_paid_wire ''m'' = JNum (Num 1)
   \<and> decompressPayload example_runtime example_paid_wire None =
       Inr [(''eventType'', JStr ''paid''), (''topicID'', JStr ''0.0.12345''),
            (''timestamp'', JStr ''2025-10-28T12:00:00.000Z''),
            (''actorIdHash'', JStr ''sha256:b2e4c1d5''),
            (''prevEventHash'', JStr ''c1d5e7a1''), (''nonce'', JStr ''nonce1''),
            (''amountMAD'', JNum (Num 151)), (''method'', JNum (Num 1)),
            (''signature'', JStr ''hex:sig123'')]"
  by (simp add: js_simps codec_simps example_simps)

text \<open>
  Claim C2 (collision-safe writes during compression). The compressors write the table
  with a plain \<^verbatim>\<open>hashLookup.set\<close>. Two ISSUED events of two patients whose hashes start
  with the same eight digits are compressed with one table: the second call replaces the
  full hash stored under the shared key by its own, and stores nothing under a
  twelve-digit key. Only \<^verbatim>\<open>hashAndStore\<close> looks for a collision, and no compressor
  calls it.
\<close>

theorem compress_overwrites_colliding_entry:
  "compressPayload example_runtime example_issued (Some Map.empty) =
     Inr (example_issued_wire, Some [''a7f3c2d1'' \<mapsto> ''a7f3c2d1e8b4a9f6''])
   \<and> compressPayload example_runtime example_issued_other
        (Some [''a7f3c2d1'' \<mapsto> ''a7f3c2d1e8b4a9f6'']) =
     Inr (example_issued_other_wire, Some [''a7f3c2d1'' \<mapsto> ''a7f3c2d10b5c6d7e''])
   \<and> [''a7f3c2d1'' \<mapsto> ''a7f3c2d10b5c6d7e''] ''a7f3c2d10b5c'' = None"
  by (simp add: js_simps codec_simps geo_simps example_simps)

text \<open>
  Claim C3 (round trip). Compressing the ISSUED event of the repository's own round-trip
  test and decompressing the result with the same table restores \<open>eventType\<close>,
  \<open>topicID\<close>, \<open>maxDispenses\<close> and \<open>dispenseCount\<close>, but not the patient hash: the table
  holds the full hash under the truncated one, and the output still carries the
  truncated hash behind the prefix. The expansion reads \<^verbatim>\<open>full.h\<close>, which is never
  set (\<open>decompressPayload_ignores_lookup\<close>).
\<close>

theorem issued_roundtrip_keeps_truncated_hash:
  "compressPayload example_runtime example_issued (Some Map.empty) =
     Inr (example_issued_wire, Some [''a7f3c2d1'' \<mapsto> ''a7f3c2d1e8b4a9f6''])
   \<and> decompressPayload example_runtime example_issued_wire
        (Some [''a7f3c2d1'' \<mapsto> ''a7f3c2d1e8b4a9f6'']) =
     Inr [(''eventType'', JStr ''issued''), (''topicID'', JStr ''0.0.12345''),
          (''timestamp'', JStr ''2025-10-28T12:00:00.000Z''),
          (''validUntil'', JStr ''2025-12-27T12:00:00.000Z''),
          (''geoTag'', JStr ''MA-CAS''),
          (''hashedPatientId'', JStr ''sha256:a7f3c2d1''),
          (''maxDispenses'', JNum (Num 2)), (''dispenseCount'', JNum (Num 0)),
          (''nonce'', JStr ''abc123''), (''signature'', JStr ''hex:sig'')]
   \<and> obj_get example_issued ''hashedPatientId'' = JStr ''sha256:a7f3c2d1e8b4a9f6''"
  by (simp add: js_simps codec_simps geo_simps example_simps)

text \<open>
  Claim C4 (lookup miss). Decompressing the wire form of a VERIFIED event with an empty
  table, or with none, keeps both truncated hashes and puts the prefix in front of the
  actor hash, but leaves the previous-event hash without it: the block that adds a
  missing prefix handles \<open>hashedPatientId\<close> and \<open>actorIdHash\<close> and has no branch for
  \<open>prevEventHash\<close>.
\<close>

theorem prev_event_hash_left_unprefixed:
  "decompressPayload example_runtime example_verified_wire (Some Map.empty) =
     Inr [(''eventType'', JStr ''verified''), (''topicID'', JStr ''0.0.12345''),
          (''timestamp'', JStr ''2025-10-28T12:00:00.000Z''),
          (''actorIdHash'', JStr ''sha256:b2e4c1d5''),
          (''prevEventHash'', JStr ''c1d5e7a1''),
          (''dispenseCount'', JNum (Num 0)), (''maxDispenses'', JNum (Num 1)),
          (''nonce'', JStr ''nonce1'')]
   \<and> decompressPayload example_runtime example_verified_wire None =
       decompressPayload example_runtime example_verified_wire (Some Map.empty)"
  by (simp add: js_simps codec_simps example_simps)

section \<open>Claim C5: collision escalation in hashAndStore\<close>








section \<open>Claim C6: unknown event types\<close>

text \<open>
  Claim C6 (unknown event type). The type \<^verbatim>\<open>compressPayload\<close> dispatches on is
  \<^verbatim>\<open>fullPayload.eventType || fullPayload.e\<close>. When it is none of the eight strings
  the \<^verbatim>\<open>switch\<close> has a case for, the call returns the payload it was given, leaves
  the table as it was and throws nothing. "cancelled" and "c" are such types.
\<close>

theorem compressPayload_unknown_type:
  "\<not> List.member (map JStr handled_event_types) (dispatch_type fullPayload) \<Longrightarrow>
   compressPayload B fullPayload hashLookup = Inr (fullPayload, hashLookup)"
  by (auto simp: compressPayload_def handled_event_types_def Let_def)

theorem compressPayload_unknown_type_witness:
  "\<not> List.member (map JStr handled_event_types)
       (dispatch_type [(''eventType'', JStr ''cancelled''), (''topicID'', JStr ''0.0.12345'')])
   \<and> compressPayload example_runtime
        [(''eventType'', JStr ''cancelled''), (''topicID'', JStr ''0.0.12345'')] (Some Map.empty)
     = Inr ([(''eventType'', JStr ''cancelled''), (''topicID'', JStr ''0.0.12345'')], Some Map.empty)
   \<and> \<not> List.member (map JStr handled_event_types) (dispatch_type [(''e'', JStr ''c'')])
   \<and> compressPayload example_runtime [(''e'', JStr ''c'')] None = Inr ([(''e'', JStr ''c'')], None)"
proof -
  let ?p = "[(''eventType'', JStr ''cancelled''), (''topicID'', JStr ''0.0.12345'')]"
  have h1: "\<not> List.member (map JStr handled_event_types) (dispatch_type ?p)"
    by (simp add: handled_event_types_def dispatch_type_def js_simps)
  have h2: "\<not> List.member (map JStr handled_event_types) (dispatch_type [(''e'', JStr ''c'')])"
    by (simp add: handled_event_types_def dispatch_type_def js_simps)
  show ?thesis
    using h1 h2 compressPayload_unknown_type [OF h1, of example_runtime "Some Map.empty"]
      compressPayload_unknown_type [OF h2, of example_runtime None]
    by simp
qed

section \<open>Claim C7: compressGeotag\<close>

subsection \<open>What the function does on every input\<close>

text \<open>
  When \<^verbatim>\<open>coordsToCity\<close> returns, it returns a code of the catalogue or the fallback
  code.
\<close>

lemma coordsToCity_loop_range:
  "coordsToCity_loop B la lo cs nearestCity minDistance = Inr c \<Longrightarrow>
   c \<in> insert FALLBACK_CODE (code ` set cs \<union> code ` set_option nearestCity)"
proof (induction cs arbitrary: nearestCity minDistance)
  case Nil
  then show ?case by (auto split: option.splits if_splits)
next
  case (Cons c' cs)
  from Cons.prems obtain d where d: "haversine_call B la lo (lat c') (lng c') = Inr d"
    by (auto split: sum.splits)
  show ?case
    using Cons.prems d
      Cons.IH [of "Some c'" "case d of DNum x \<Rightarrow> Some x | DNaN \<Rightarrow> minDistance"]
      Cons.IH [of nearestCity minDistance]
    by (auto split: if_splits)
qed

lemma coordsToCity_range:
  "coordsToCity B la lo = Inr c \<Longrightarrow> c \<in> set (FALLBACK_CODE # catalogue_codes)"
  using coordsToCity_loop_range [of B la lo MOROCCAN_CITIES None None c]
  by (auto simp: coordsToCity_def catalogue_codes_def split: if_splits)

text \<open>
  It throws exactly when both coordinates are truthy and one of them cannot be converted
  to a number: the first pass of the loop calls \<^verbatim>\<open>haversineDistance\<close>.
\<close>

lemma coordsToCity_loop_returns:
  "\<not> to_number_throws la \<Longrightarrow> \<not> to_number_throws lo \<Longrightarrow>
   coordsToCity_loop B la lo cs nearestCity minDistance \<noteq> Inl e"
  by (induction cs arbitrary: nearestCity minDistance)
     (auto simp: haversine_call_def split: option.splits)

lemma coordsToCity_throws:
  "(coordsToCity B la lo = Inl e) =
     (e = TypeError \<and> truthy la \<and> truthy lo \<and> (to_number_throws la \<or> to_number_throws lo))"
proof (cases "to_number_throws la \<or> to_number_throws lo")
  case True
  then show ?thesis
    by (auto simp: coordsToCity_def MOROCCAN_CITIES_def haversine_call_def falsy_def)
next
  case False
  then show ?thesis
    using coordsToCity_loop_returns [of la lo B MOROCCAN_CITIES None None e]
    by (auto simp: coordsToCity_def)
qed

lemma compressGeotag_throws:
  "(compressGeotag B g = Inl e) =
     (e = TypeError
      \<and> (case g of
            JObj ps \<Rightarrow>
              truthy (obj_get ps ''lat'') \<and> truthy (obj_get ps ''lng'')
              \<and> (to_number_throws (obj_get ps ''lat'') \<or> to_number_throws (obj_get ps ''lng''))
          | _ \<Rightarrow> False))"
proof (cases g)
  case (JStr s)
  then show ?thesis
    by (auto simp: compressGeotag_def coordsToCity_throws to_number_throws_def split: list.splits)
next
  case (JObj ps)
  then show ?thesis by (auto simp: compressGeotag_def coordsToCity_throws falsy_def)
qed (simp_all add: compressGeotag_def)

text \<open>
  A string that starts with "MA-" comes back as it is, whatever follows the prefix; every
  other input on which the function returns gives a code of the catalogue or the
  fallback code.
\<close>

lemma compressGeotag_prefix:
  "startsWith s ''MA-'' \<Longrightarrow> compressGeotag B (JStr s) = Inr s"
  by (auto simp: compressGeotag_def falsy_def startsWith_def)

lemma compressGeotag_range:
  assumes "compressGeotag B g = Inr c"
    and "case g of JStr s \<Rightarrow> \<not> startsWith s ''MA-'' | _ \<Rightarrow> True"
  shows "c \<in> set (FALLBACK_CODE # catalogue_codes)"
proof (cases g)
  case (JStr s)
  with assms show ?thesis
    unfolding compressGeotag_def using coordsToCity_range [of B _ _ c]
    by (auto split: list.splits if_splits)
next
  case (JObj ps)
  with assms show ?thesis
    unfolding compressGeotag_def using coordsToCity_range [of B _ _ c]
    by (auto split: if_splits)
qed (use assms in \<open>auto simp: compressGeotag_def split: if_splits\<close>)

subsection \<open>Where it departs from the claim\<close>

text \<open>
  Claim C7 (\<^verbatim>\<open>compressGeotag\<close> never throws; valid city codes pass through, coordinates
  are normalized to a city code, malformed or missing input gives the fallback code
  MA-UNK). The code departs from it on two inputs. The test for "already a city code" is
  \<^verbatim>\<open>geotag.startsWith('MA-')\<close>, so the coordinates of Casablanca written with the
  prefix, a form \<^verbatim>\<open>parseGeotag\<close> reads as coordinates, come back as they went
  in, neither a city code nor MA-UNK, and \<^verbatim>\<open>compressPayload\<close> puts them on the wire
  in the field \<open>g\<close>; the same coordinates without the prefix give MA-CAS. And an object
  whose \<open>lat\<close> is an object with a property \<^verbatim>\<open>toString\<close> makes the subtraction in
  \<^verbatim>\<open>haversineDistance\<close> throw TypeError, which nothing catches.
\<close>

theorem compressGeotag_keeps_prefixed_coordinates:
  "compressGeotag example_runtime (JStr ''MA-33.5731,-7.5898'') = Inr ''MA-33.5731,-7.5898''
   \<and> \<not> List.member (FALLBACK_CODE # catalogue_codes) ''MA-33.5731,-7.5898''
   \<and> compressGeotag example_runtime (JStr ''33.5731,-7.5898'') = Inr ''MA-CAS''
   \<and> compressPayload example_runtime
        (obj_set example_issued ''geoTag'' (JStr ''MA-33.5731,-7.5898'')) None =
       Inr (obj_set example_issued_wire ''g'' (JStr ''MA-33.5731,-7.5898''), None)
   \<and> compressGeotag example_runtime
        (JObj [(''lat'', JObj [(''toString'', JNum (Num 1))]), (''lng'', JNum (Num 1))]) =
       Inl TypeError"
  by (simp add: js_simps codec_simps geo_simps example_simps catalogue_codes_def)

section \<open>Claim C8: decompressing a full object\<close>

text \<open>
  Claim C8 (decompressing a full object). As stated the claim fails: the test is
  \<^verbatim>\<open>if (compressedPayload.eventType)\<close>, the truthiness of the value and not the
  presence of the key. An object that carries \<open>eventType\<close> with the empty string is
  taken for a wire object and rebuilt: its \<open>h\<close> comes back renamed and prefixed.
\<close>

theorem decompressPayload_falsy_eventType_counterexample:
  "obj_get [(''eventType'', JStr []), (''h'', JStr ''a7f3c2d1'')] ''eventType'' = JStr []
   \<and> decompressPayload example_runtime [(''eventType'', JStr []), (''h'', JStr ''a7f3c2d1'')] None
     = Inr [(''eventType'', JStr []), (''hashedPatientId'', JStr ''sha256:a7f3c2d1'')]
   \<and> [(''eventType'', JStr []), (''hashedPatientId'', JStr ''sha256:a7f3c2d1'')]
       \<noteq> [(''eventType'', JStr []), (''h'', JStr ''a7f3c2d1'')]"
  by (simp add: js_simps codec_simps)

text \<open>
  Claim C8 as amended. An object whose \<open>eventType\<close> is truthy (any string but the empty
  one, in particular every long-form event type) is returned as it is, whatever the
  table holds.
\<close>

theorem decompressPayload_idempotent:
  "truthy (obj_get x ''eventType'') \<Longrightarrow> decompressPayload B x hashLookup = Inr x"
  by (simp add: decompressPayload_def)

theorem decompressPayload_idempotent_witness:
  "truthy (obj_get example_issued ''eventType'')
   \<and> decompressPayload example_runtime example_issued (Some [''a7f3c2d1'' \<mapsto> ''a7f3c2d1e8b4a9f6''])
     = Inr example_issued
   \<and> decompressPayload example_runtime example_issued None = Inr example_issued"
proof -
  have t: "truthy (obj_get example_issued ''eventType'')"
    by (simp add: example_issued_def obj_get_def)
  show ?thesis
    using t decompressPayload_idempotent [OF t, of example_runtime "Some [''a7f3c2d1'' \<mapsto> ''a7f3c2d1e8b4a9f6'']"]
      decompressPayload_idempotent [OF t, of example_runtime None]
    by simp
qed

section \<open>Claim C9: the dispense lock\<close>

text \<open>
  Claim C9 (dispense lock). A call of \<^verbatim>\<open>acquireDispenseLock\<close> has succeeded and has
  stamped the lock with the time \<open>t0\<close>. A second call for the same topic that reads the
  clock at \<open>c1\<close> returns false and leaves the table, and so the holder, as it was when
  at most 30 seconds have passed (\<open>c1 - t0 \<le> 30000\<close>), and returns true and makes the
  caller the holder when more than 30 seconds have passed.
\<close>

theorem dispense_lock_exclusion_and_reclaim:
  "acquireDispenseLock c0 t0 topicId p1 ops = (True, ops1) \<Longrightarrow>
   ops1 topicId = Some \<lparr>pharmacistId = p1, lock_timestamp = t0\<rparr>
   \<and> (c1 - t0 \<le> 30000 \<longrightarrow> acquireDispenseLock c1 t1 topicId p2 ops1 = (False, ops1))
   \<and> (c1 - t0 > 30000 \<longrightarrow>
        acquireDispenseLock c1 t1 topicId p2 ops1
          = (True, ops1(topicId \<mapsto> \<lparr>pharmacistId = p2, lock_timestamp = t1\<rparr>)))"
  by (auto simp: acquireDispenseLock_def DISPENSE_LOCK_TIMEOUT_def Let_def
      split: option.splits if_splits)

theorem dispense_lock_exclusion_and_reclaim_witness:
  "acquireDispenseLock 1000 1000 ''0.0.12345'' ''PH-1'' Map.empty
     = (True, [''0.0.12345'' \<mapsto> \<lparr>pharmacistId = ''PH-1'', lock_timestamp = 1000\<rparr>])
   \<and> (29000 :: int) - 1000 \<le> 30000
   \<and> acquireDispenseLock 29000 29000 ''0.0.12345'' ''PH-2''
        [''0.0.12345'' \<mapsto> \<lparr>pharmacistId = ''PH-1'', lock_timestamp = 1000\<rparr>]
     = (False, [''0.0.12345'' \<mapsto> \<lparr>pharmacistId = ''PH-1'', lock_timestamp = 1000\<rparr>])
   \<and> (31001 :: int) - 1000 > 30000
   \<and> acquireDispenseLock 31001 31002 ''0.0.12345'' ''PH-2''
        [''0.0.12345'' \<mapsto> \<lparr>pharmacistId = ''PH-1'', lock_timestamp = 1000\<rparr>]
     = (True, [''0.0.12345'' \<mapsto> \<lparr>pharmacistId = ''PH-2'', lock_timestamp = 31002\<rparr>])"
proof -
  let ?ops1 = "[''0.0.12345'' \<mapsto> \<lparr>pharmacistId = ''PH-1'', lock_timestamp = 1000\<rparr>]"
  have first: "acquireDispenseLock 1000 1000 ''0.0.12345'' ''PH-1'' Map.empty = (True, ?ops1)"
    by (simp add: acquireDispenseLock_def)
  show ?thesis
    using first
      dispense_lock_exclusion_and_reclaim [OF first, of 29000 29000 "''PH-2''"]
      dispense_lock_exclusion_and_reclaim [OF first, of 31001 31002 "''PH-2''"]
    by simp
qed

section \<open>Claim C10: the pending-confirmation table\<close>

subsection \<open>The invariant holds in every reachable state\<close>

lemmas inv_defs = recon_inv_def unconfirmed_inv_def awaiting_inv_def injective_inv_def scheduled_inv_def

lemma in_remove1_other: "x \<noteq> y \<Longrightarrow> x \<in> set xs \<Longrightarrow> x \<in> set (remove1 y xs)"
  by (induction xs) auto

lemma in_remove1_D: "x \<in> set (remove1 y xs) \<Longrightarrow> x \<in> set xs"
  by (metis notin_set_remove1)

lemma inv_start: "recon_inv initial_state"
  by (simp add: inv_defs initial_state_def)

lemma inv_sweep: "recon_inv s \<Longrightarrow> recon_inv (s\<lparr>inMemoryStore := st\<rparr>)"
  by (simp add: inv_defs)

lemma submit_fields:
  "submitStatusUpdate now_store now topicId newStatus meta s =
     s\<lparr>inMemoryStore := setTopicStatus now_store topicId newStatus (inMemoryStore s),
       heap := (heap s)(next_addr s \<mapsto>
            \<lparr>status = newStatus, timestamp = now, retries = 0, confirmed = False, metadata = meta\<rparr>),
       next_addr := Suc (next_addr s),
       pendingConfirmations := (pendingConfirmations s)(topicId \<mapsto> next_addr s),
       timers := timers s @ [(topicId, retry_delay 0)]\<rparr>"
  by (simp add: submitStatusUpdate_def scheduleRetry_def)

lemma inv_submit:
  assumes "recon_inv s"
  shows "recon_inv (submitStatusUpdate now_store now topicId newStatus meta s)"
proof -
  have u: "unconfirmed_inv s" and a: "awaiting_inv s" and i: "injective_inv s" and sc: "scheduled_inv s"
    using assms by (simp_all add: recon_inv_def)
  let ?s = "submitStatusUpdate now_store now topicId newStatus meta s"
  have "unconfirmed_inv ?s"
    using u unfolding submit_fields unconfirmed_inv_def by (auto simp: less_Suc_eq)
  moreover have "awaiting_inv ?s"
    using a u unfolding submit_fields awaiting_inv_def unconfirmed_inv_def
    by (auto simp: less_Suc_eq)
  moreover have "injective_inv ?s"
    using i u unfolding submit_fields injective_inv_def unconfirmed_inv_def
    by (auto split: if_splits)
  moreover have "scheduled_inv ?s"
    using sc u unfolding submit_fields scheduled_inv_def unconfirmed_inv_def
    by (auto split: if_splits)
  ultimately show ?thesis by (simp add: recon_inv_def)
qed

lemma inv_fire:
  assumes "recon_inv s" and "(topicId, d) \<in> set (timers s)"
  shows "recon_inv (retry_begin topicId (s\<lparr>timers := remove1 (topicId, d) (timers s)\<rparr>))"
proof -
  have u: "unconfirmed_inv s" and a: "awaiting_inv s" and i: "injective_inv s" and sc: "scheduled_inv s"
    using assms by (simp_all add: recon_inv_def)
  let ?s = "retry_begin topicId (s\<lparr>timers := remove1 (topicId, d) (timers s)\<rparr>)"
  have pc: "pendingConfirmations ?s = pendingConfirmations s" and hp: "heap ?s = heap s"
    and na: "next_addr ?s = next_addr s"
    by (simp_all add: retry_begin_def split: option.splits)
  have tm: "timers ?s = remove1 (topicId, d) (timers s)"
    by (simp add: retry_begin_def split: option.splits)
  have aw: "awaiting ?s =
      (case pendingConfirmations s topicId of None \<Rightarrow> awaiting s
       | Some b \<Rightarrow> awaiting s @ [(topicId, b)])"
  proof (cases "pendingConfirmations s topicId")
    case None
    then show ?thesis by (simp add: retry_begin_def)
  next
    case (Some b)
    with u obtain r where "heap s b = Some r" "\<not> confirmed r"
      unfolding unconfirmed_inv_def by blast
    with Some show ?thesis by (simp add: retry_begin_def)
  qed
  have "unconfirmed_inv ?s" using u by (simp add: unconfirmed_inv_def pc hp na)
  moreover have "awaiting_inv ?s"
    using a u i unfolding awaiting_inv_def unconfirmed_inv_def injective_inv_def pc hp na aw
    by (auto split: option.splits; blast)
  moreover have "injective_inv ?s" using i by (simp add: injective_inv_def pc)
  moreover have "scheduled_inv ?s"
    unfolding scheduled_inv_def pc hp tm
  proof (intro allI impI)
    fix t b r
    assume p: "pendingConfirmations s t = Some b" and h: "heap s b = Some r" and lt: "retries r < MAX_RETRIES"
    from sc p h lt have old: "(\<exists>d'. (t, d') \<in> set (timers s)) \<or> (t, b) \<in> set (awaiting s)"
      unfolding scheduled_inv_def by blast
    show "(\<exists>d'. (t, d') \<in> set (remove1 (topicId, d) (timers s))) \<or> (t, b) \<in> set (awaiting ?s)"
    proof (cases "t = topicId")
      case True
      with p show ?thesis by (simp add: aw)
    next
      case False
      from old show ?thesis
      proof
        assume "\<exists>d'. (t, d') \<in> set (timers s)"
        then obtain d' where "(t, d') \<in> set (timers s)" ..
        with False have "(t, d') \<in> set (remove1 (topicId, d) (timers s))"
          by (intro in_remove1_other) auto
        then show ?thesis by blast
      next
        assume "(t, b) \<in> set (awaiting s)"
        then show ?thesis by (auto simp: aw split: option.splits)
      qed
    qed
  qed
  ultimately show ?thesis by (simp add: recon_inv_def)
qed


lemma count_retry_counted:
  assumes u: "unconfirmed_inv s" and h: "heap s a = Some r"
  shows "counted_by topicId a r s
           (count_retry topicId a r mf (s\<lparr>awaiting := remove1 (topicId, a) (awaiting s)\<rparr>))"
proof (cases "Suc (retries r) < MAX_RETRIES")
  case False
  then show ?thesis by (auto simp: counted_by_def count_retry_def Let_def)
next
  case True
  show ?thesis
  proof (cases "pendingConfirmations s topicId")
    case None
    with True show ?thesis by (auto simp: counted_by_def count_retry_def Let_def scheduleRetry_def)
  next
    case (Some b)
    from u Some obtain rb where rb: "heap s b = Some rb" "\<not> confirmed rb"
      unfolding unconfirmed_inv_def by blast
    have "b = a \<Longrightarrow> \<not> confirmed r" using rb h by simp
    with True Some rb show ?thesis
      by (auto simp: counted_by_def count_retry_def Let_def scheduleRetry_def)
  qed
qed

lemma resume_outcome:
  assumes u: "unconfirmed_inv s" and h: "heap s a = Some r"
  shows "(let s' = retry_resume now topicId a res (s\<lparr>awaiting := remove1 (topicId, a) (awaiting s)\<rparr>)
          in case res of
               Resolved ms \<Rightarrow>
                 if ms = status r \<or> ms \<noteq> ''unknown'' then settled_by topicId a s s'
                 else counted_by topicId a r s s'
             | Rejected \<Rightarrow> counted_by topicId a r s s')"
proof (cases res)
  case Rejected
  then show ?thesis using count_retry_counted [OF u h] h by (simp add: retry_resume_def)
next
  case (Resolved ms)
  show ?thesis
  proof (cases "ms = status r \<or> ms \<noteq> ''unknown''")
    case True
    then show ?thesis using Resolved h by (auto simp: retry_resume_def settled_by_def)
  next
    case False
    then show ?thesis using Resolved h count_retry_counted [OF u h] by (auto simp: retry_resume_def)
  qed
qed

lemma inv_settled:
  assumes inv: "recon_inv s" and aw: "(topicId, a) \<in> set (awaiting s)" and st: "settled_by topicId a s s'"
  shows "recon_inv s'"
proof -
  have u: "unconfirmed_inv s" and ai: "awaiting_inv s" and i: "injective_inv s" and sc: "scheduled_inv s"
    using inv by (simp_all add: recon_inv_def)
  from st obtain r1 where f: "next_addr s' = next_addr s" "awaiting s' = remove1 (topicId, a) (awaiting s)"
    "timers s' = timers s" "pendingConfirmations s' = (pendingConfirmations s)(topicId := None)"
    "heap s' = (heap s)(a \<mapsto> r1)"
    unfolding settled_by_def by blast
  have owner: "\<And>t. pendingConfirmations s t = Some a \<Longrightarrow> t = topicId"
    using ai aw unfolding awaiting_inv_def by blast
  have "unconfirmed_inv s'"
    unfolding unconfirmed_inv_def f using u owner
    by (auto simp: unconfirmed_inv_def split: if_splits)
  moreover have "awaiting_inv s'"
    unfolding awaiting_inv_def f using ai
    by (auto simp: awaiting_inv_def dest!: in_remove1_D split: if_splits)
  moreover have "injective_inv s'"
    unfolding injective_inv_def f using i by (auto simp: injective_inv_def split: if_splits)
  moreover have "scheduled_inv s'"
    unfolding scheduled_inv_def f
  proof (intro allI impI)
    fix t b r
    assume p: "((pendingConfirmations s)(topicId := None)) t = Some b"
      and h: "((heap s)(a \<mapsto> r1)) b = Some r" and lt: "retries r < MAX_RETRIES"
    from p have tne: "t \<noteq> topicId" and p': "pendingConfirmations s t = Some b" by (auto split: if_splits)
    with owner have bne: "b \<noteq> a" by blast
    with h have "heap s b = Some r" by simp
    with sc p' lt have "(\<exists>d. (t, d) \<in> set (timers s)) \<or> (t, b) \<in> set (awaiting s)"
      unfolding scheduled_inv_def by blast
    moreover have "(t, b) \<in> set (awaiting s) \<Longrightarrow> (t, b) \<in> set (remove1 (topicId, a) (awaiting s))"
      using tne by (intro in_remove1_other) auto
    ultimately show "(\<exists>d. (t, d) \<in> set (timers s)) \<or> (t, b) \<in> set (remove1 (topicId, a) (awaiting s))"
      by blast
  qed
  ultimately show ?thesis by (simp add: recon_inv_def)
qed


lemma inv_counted:
  assumes inv: "recon_inv s" and aw: "(topicId, a) \<in> set (awaiting s)"
    and h: "heap s a = Some r" and ct: "counted_by topicId a r s s'"
  shows "recon_inv s'"
proof -
  have u: "unconfirmed_inv s" and ai: "awaiting_inv s" and i: "injective_inv s" and sc: "scheduled_inv s"
    using inv by (simp_all add: recon_inv_def)
  from ct obtain r2 where f: "next_addr s' = next_addr s" "awaiting s' = remove1 (topicId, a) (awaiting s)"
    "pendingConfirmations s' = pendingConfirmations s" "heap s' = (heap s)(a \<mapsto> r2)"
    and r2: "retries r2 = Suc (retries r)" "confirmed r2 \<longrightarrow> confirmed r"
    and tm: "(timers s' = timers s \<and> (pendingConfirmations s topicId = None \<or> MAX_RETRIES \<le> Suc (retries r)))
          \<or> (\<exists>d. timers s' = timers s @ [(topicId, d)])"
    unfolding counted_by_def by blast
  have owner: "\<And>t. pendingConfirmations s t = Some a \<Longrightarrow> t = topicId"
    using ai aw unfolding awaiting_inv_def by blast
  have "unconfirmed_inv s'"
    unfolding unconfirmed_inv_def f
  proof (intro allI impI)
    fix t b assume p: "pendingConfirmations s t = Some b"
    with u obtain rb where rb: "b < next_addr s" "heap s b = Some rb" "\<not> confirmed rb"
      unfolding unconfirmed_inv_def by blast
    show "b < next_addr s \<and> (\<exists>r. ((heap s)(a \<mapsto> r2)) b = Some r \<and> \<not> confirmed r)"
      using rb h r2 by (cases "b = a") auto
  qed
  moreover have "awaiting_inv s'"
    unfolding awaiting_inv_def f using ai
    by (auto simp: awaiting_inv_def dest!: in_remove1_D split: if_splits)
  moreover have "injective_inv s'"
    unfolding injective_inv_def f using i by (auto simp: injective_inv_def)
  moreover have "scheduled_inv s'"
    unfolding scheduled_inv_def f
  proof (intro allI impI)
    fix t b rb
    assume p: "pendingConfirmations s t = Some b"
      and hb: "((heap s)(a \<mapsto> r2)) b = Some rb" and lt: "retries rb < MAX_RETRIES"
    show "(\<exists>d. (t, d) \<in> set (timers s')) \<or> (t, b) \<in> set (remove1 (topicId, a) (awaiting s))"
    proof (cases "t = topicId")
      case True
      show ?thesis
      proof (cases "b = a")
        case True
        with hb lt r2 have "Suc (retries r) < MAX_RETRIES" by simp
        with tm p \<open>t = topicId\<close> show ?thesis by auto
      next
        case False
        with hb have "heap s b = Some rb" by simp
        with sc p lt have old: "(\<exists>d. (t, d) \<in> set (timers s)) \<or> (t, b) \<in> set (awaiting s)"
          unfolding scheduled_inv_def by blast
        have keep: "(t, b) \<in> set (awaiting s) \<Longrightarrow> (t, b) \<in> set (remove1 (topicId, a) (awaiting s))"
          using False by (intro in_remove1_other) auto
        from tm have "\<And>d. (t, d) \<in> set (timers s) \<Longrightarrow> (t, d) \<in> set (timers s')" by auto
        with old keep show ?thesis by blast
      qed
    next
      case False
      with owner p have bne: "b \<noteq> a" by blast
      with hb have "heap s b = Some rb" by simp
      with sc p lt have old: "(\<exists>d. (t, d) \<in> set (timers s)) \<or> (t, b) \<in> set (awaiting s)"
        unfolding scheduled_inv_def by blast
      have keep: "(t, b) \<in> set (awaiting s) \<Longrightarrow> (t, b) \<in> set (remove1 (topicId, a) (awaiting s))"
        using False by (intro in_remove1_other) auto
      from tm have "\<And>d. (t, d) \<in> set (timers s) \<Longrightarrow> (t, d) \<in> set (timers s')" by auto
      with old keep show ?thesis by blast
    qed
  qed
  ultimately show ?thesis by (simp add: recon_inv_def)
qed

lemma inv_resume:
  assumes inv: "recon_inv s" and aw: "(topicId, a) \<in> set (awaiting s)"
  shows "recon_inv (retry_resume now topicId a res (s\<lparr>awaiting := remove1 (topicId, a) (awaiting s)\<rparr>))"
proof -
  have u: "unconfirmed_inv s" and ai: "awaiting_inv s" using inv by (simp_all add: recon_inv_def)
  from ai aw obtain r where h: "heap s a = Some r" unfolding awaiting_inv_def by blast
  from resume_outcome [OF u h, of now topicId res] inv_settled [OF inv aw] inv_counted [OF inv aw h]
  show ?thesis by (auto simp: Let_def split: mirror_result.splits if_splits)
qed

lemma reachable_inv: "reachable s \<Longrightarrow> recon_inv s"
proof (induction rule: reachable.induct)
  case start
  show ?case by (rule inv_start)
next
  case (submit s now_store now topicId newStatus meta)
  then show ?case by (simp add: inv_submit)
next
  case (fire s topicId d)
  then show ?case by (simp add: inv_fire)
next
  case (resume s topicId a now res)
  then show ?case by (simp add: inv_resume)
next
  case (sweep s now topicId mirrorStatus)
  then show ?case by (simp add: inv_sweep)
qed



subsection \<open>The example states are reachable\<close>

lemma unknown_round_step:
  assumes "reachable s" and "timers s = [(topicId, d)]" and "awaiting s = []"
    and "pendingConfirmations s topicId = Some a" and "heap s a = Some (example_record n)"
  shows "reachable (unknown_round topicId d a s)
       \<and> timers (unknown_round topicId d a s)
           = (if Suc n < MAX_RETRIES then [(topicId, retry_delay (Suc n))] else [])
       \<and> awaiting (unknown_round topicId d a s) = []
       \<and> pendingConfirmations (unknown_round topicId d a s) topicId = Some a
       \<and> heap (unknown_round topicId d a s) a = Some (example_record (Suc n))"
proof -
  let ?s1 = "retry_begin topicId (s\<lparr>timers := remove1 (topicId, d) (timers s)\<rparr>)"
  have r1: "reachable ?s1" using assms(1,2) by (intro reachable.fire) simp_all
  have f1: "?s1 = s\<lparr>timers := [], awaiting := [(topicId, a)]\<rparr>"
    using assms by (simp add: retry_begin_def example_record_def)
  have aw1: "(topicId, a) \<in> set (awaiting ?s1)" unfolding f1 by simp
  have r2: "reachable (unknown_round topicId d a s)"
    unfolding unknown_round_def Let_def using r1 aw1 by (rule reachable.resume)
  have f2: "unknown_round topicId d a s
      = retry_resume 0 topicId a (Resolved ''unknown'') (s\<lparr>timers := [], awaiting := []\<rparr>)"
    unfolding unknown_round_def Let_def f1 by simp
  show ?thesis using r2 assms unfolding f2
    by (simp add: retry_resume_def count_retry_def scheduleRetry_def example_record_def Let_def)
qed

lemma example_submitted_facts:
  "reachable example_submitted \<and> timers example_submitted = [(''0.0.12345'', 2000)]
   \<and> awaiting example_submitted = [] \<and> pendingConfirmations example_submitted ''0.0.12345'' = Some 0
   \<and> heap example_submitted 0 = Some (example_record 0)"
proof -
  have "reachable example_submitted" unfolding example_submitted_def
    by (intro reachable.submit reachable.start)
  then show ?thesis
    by (simp add: example_submitted_def submitStatusUpdate_def scheduleRetry_def initial_state_def
        example_record_def retry_delay_def RETRY_DELAYS_def)
qed

lemma example_exhausted_facts:
  "reachable example_exhausted \<and> quiescent example_exhausted
   \<and> pendingConfirmations example_exhausted ''0.0.12345'' = Some 0
   \<and> heap example_exhausted 0 = Some (example_record 5)"
proof -
  let ?T = "''0.0.12345''"
  define e1 where "e1 = unknown_round ?T 2000 0 example_submitted"
  define e2 where "e2 = unknown_round ?T 5000 0 e1"
  define e3 where "e3 = unknown_round ?T 10000 0 e2"
  define e4 where "e4 = unknown_round ?T 20000 0 e3"
  define e5 where "e5 = unknown_round ?T 30000 0 e4"
  note delays = MAX_RETRIES_def retry_delay_def RETRY_DELAYS_def
  have r1: "reachable e1 \<and> timers e1 = [(?T, 5000)] \<and> awaiting e1 = []
       \<and> pendingConfirmations e1 ?T = Some 0 \<and> heap e1 0 = Some (example_record (Suc 0))"
    unfolding e1_def
    using unknown_round_step [of example_submitted ?T 2000 0 0] example_submitted_facts
    by (simp add: delays)
  have r2: "reachable e2 \<and> timers e2 = [(?T, 10000)] \<and> awaiting e2 = []
       \<and> pendingConfirmations e2 ?T = Some 0 \<and> heap e2 0 = Some (example_record (Suc (Suc 0)))"
    unfolding e2_def using unknown_round_step [of e1 ?T 5000 0 "Suc 0"] r1
    by (simp add: delays)
  have r3: "reachable e3 \<and> timers e3 = [(?T, 20000)] \<and> awaiting e3 = []
       \<and> pendingConfirmations e3 ?T = Some 0
       \<and> heap e3 0 = Some (example_record (Suc (Suc (Suc 0))))"
    unfolding e3_def using unknown_round_step [of e2 ?T 10000 0 "Suc (Suc 0)"] r2
    by (simp add: delays)
  have r4: "reachable e4 \<and> timers e4 = [(?T, 30000)] \<and> awaiting e4 = []
       \<and> pendingConfirmations e4 ?T = Some 0
       \<and> heap e4 0 = Some (example_record (Suc (Suc (Suc (Suc 0)))))"
    unfolding e4_def using unknown_round_step [of e3 ?T 20000 0 "Suc (Suc (Suc 0))"] r3
    by (simp add: delays)
  have r5: "reachable e5 \<and> timers e5 = [] \<and> awaiting e5 = []
       \<and> pendingConfirmations e5 ?T = Some 0
       \<and> heap e5 0 = Some (example_record (Suc (Suc (Suc (Suc (Suc 0))))))"
    unfolding e5_def using unknown_round_step [of e4 ?T 30000 0 "Suc (Suc (Suc (Suc 0)))"] r4
    by (simp add: delays)
  have five: "Suc (Suc (Suc (Suc (Suc 0)))) = 5" by simp
  have "example_exhausted = e5"
    by (simp add: example_exhausted_def e1_def e2_def e3_def e4_def e5_def)
  with r5 show ?thesis unfolding five by (simp add: quiescent_def)
qed

text \<open>
  Claim C10 (the table holds only unconfirmed records). In every state the service can
  reach, also while checks are waiting for the ledger: a record that stands in
  \<^verbatim>\<open>pendingConfirmations\<close> has \<open>confirmed = false\<close>; a check that comes back with the
  submitted status, or with another status than "unknown", deletes the topic's record,
  so that \<^verbatim>\<open>getConfirmationStatus\<close> then answers \<open>no_pending\<close>; and once no timer is
  pending and no check is waiting, every record left in the table has used up its
  retries.
\<close>

theorem pending_table_holds_unconfirmed:
  assumes "reachable s"
  shows "(pendingConfirmations s topicId = Some a \<longrightarrow>
            (\<exists>r. heap s a = Some r \<and> \<not> confirmed r))
       \<and> ((topicId, a) \<in> set (awaiting s) \<and> heap s a = Some r
            \<and> (mirrorStatus = status r \<or> mirrorStatus \<noteq> ''unknown'') \<longrightarrow>
          getConfirmationStatus now' topicId
            (retry_resume now topicId a (Resolved mirrorStatus)
               (s\<lparr>awaiting := remove1 (topicId, a) (awaiting s)\<rparr>)) = no_pending)
       \<and> (quiescent s \<and> pendingConfirmations s topicId = Some a \<and> heap s a = Some r \<longrightarrow>
            MAX_RETRIES \<le> retries r)"
proof (intro conjI impI)
  from assms have inv: "recon_inv s" by (rule reachable_inv)
  {
    assume "pendingConfirmations s topicId = Some a"
    with inv show "\<exists>r. heap s a = Some r \<and> \<not> confirmed r"
      unfolding recon_inv_def unconfirmed_inv_def by blast
  }
  {
    assume "(topicId, a) \<in> set (awaiting s) \<and> heap s a = Some r
            \<and> (mirrorStatus = status r \<or> mirrorStatus \<noteq> ''unknown'')"
    then show "getConfirmationStatus now' topicId
            (retry_resume now topicId a (Resolved mirrorStatus)
               (s\<lparr>awaiting := remove1 (topicId, a) (awaiting s)\<rparr>)) = no_pending"
      by (auto simp: retry_resume_def getConfirmationStatus_def no_pending_def)
  }
  {
    assume q: "quiescent s \<and> pendingConfirmations s topicId = Some a \<and> heap s a = Some r"
    show "MAX_RETRIES \<le> retries r"
    proof (rule ccontr)
      assume "\<not> MAX_RETRIES \<le> retries r"
      then have "retries r < MAX_RETRIES" by simp
      with inv q have "(\<exists>d. (topicId, d) \<in> set (timers s)) \<or> (topicId, a) \<in> set (awaiting s)"
        unfolding recon_inv_def scheduled_inv_def by blast
      with q show False by (simp add: quiescent_def)
    qed
  }
qed

text \<open>
  The witness. A status "paid" is submitted for one topic: its record is in the table,
  unconfirmed. The first timer fires, and the check comes back with "paid": the record is
  gone. Had five checks in a row come back "unknown" instead, no timer would be left and
  the record would still be there with five retries.
\<close>

theorem pending_table_holds_unconfirmed_witness:
  "reachable example_submitted
   \<and> pendingConfirmations example_submitted ''0.0.12345'' = Some 0
   \<and> heap example_submitted 0 = Some (example_record 0) \<and> \<not> confirmed (example_record 0)
   \<and> reachable example_awaiting
   \<and> (''0.0.12345'', 0) \<in> set (awaiting example_awaiting)
   \<and> heap example_awaiting 0 = Some (example_record 0)
   \<and> ''paid'' = status (example_record 0)
   \<and> getConfirmationStatus 9000 ''0.0.12345''
        (retry_resume 8000 ''0.0.12345'' 0 (Resolved ''paid'')
           (example_awaiting\<lparr>awaiting := remove1 (''0.0.12345'', 0) (awaiting example_awaiting)\<rparr>))
       = no_pending
   \<and> reachable example_exhausted \<and> quiescent example_exhausted
   \<and> pendingConfirmations example_exhausted ''0.0.12345'' = Some 0
   \<and> heap example_exhausted 0 = Some (example_record 5)
   \<and> MAX_RETRIES \<le> retries (example_record 5)"
proof -
  let ?T = "''0.0.12345''"
  note s0 = example_submitted_facts
  have w1: "reachable example_awaiting"
    unfolding example_awaiting_def using s0 by (intro reachable.fire) simp_all
  have f1: "example_awaiting = example_submitted\<lparr>timers := [], awaiting := [(?T, 0)]\<rparr>"
    using s0 by (simp add: example_awaiting_def retry_begin_def example_record_def)
  have w2: "(?T, 0) \<in> set (awaiting example_awaiting)" unfolding f1 by simp
  have w3: "heap example_awaiting 0 = Some (example_record 0)" unfolding f1 using s0 by simp
  have w4: "''paid'' = status (example_record 0)" by (simp add: example_record_def)
  note x = example_exhausted_facts
  note thm0 = pending_table_holds_unconfirmed [of example_submitted ?T 0]
  note thm1 = pending_table_holds_unconfirmed
    [of example_awaiting ?T 0 "example_record 0" "''paid''" 9000 8000]
  note thm2 = pending_table_holds_unconfirmed [of example_exhausted ?T 0 "example_record 5"]
  have c0: "\<not> confirmed (example_record 0)" using thm0 s0 by auto
  have c1: "getConfirmationStatus 9000 ?T
        (retry_resume 8000 ?T 0 (Resolved ''paid'')
           (example_awaiting\<lparr>awaiting := remove1 (?T, 0) (awaiting example_awaiting)\<rparr>))
       = no_pending"
    using thm1 w1 w2 w3 w4 by blast
  have c2: "MAX_RETRIES \<le> retries (example_record 5)" using thm2 x by blast
  show ?thesis
    using s0 w1 w2 w3 w4 c0 c1 c2 x by blast
qed

end
